theory Spec2Isabelle
  imports Main
begin

unbundle bit_operations_syntax

section \<open>Certificate rotation for the CRD conversion webhook\<close>

text \<open>
  A shallow embedding of \<^verbatim>\<open>pkg/controllers/crds/crds_controller.go\<close>.
  The controller is glue around the Go standard library (\<^verbatim>\<open>encoding/pem\<close>,
  \<^verbatim>\<open>crypto/x509\<close>, \<^verbatim>\<open>crypto/tls\<close>, \<^verbatim>\<open>crypto/rsa\<close>) and the Kubernetes client.
  Neither is part of the repository, so both are parameters of the model: the library
  is a record of functions \<open>L\<close>, the cluster as one pass observes it is a record \<open>C\<close>
  (the clock and the answers of the API server), and what a pass changes is a record
  \<open>w\<close> (the entropy consumed and the writes sent to the API server).
  Every function of the controller is translated line by line over these parameters.
\<close>

subsection \<open>Values\<close>

type_synonym bytes = string

text \<open>Instants and durations are counted in nanoseconds, as \<^verbatim>\<open>time.Duration\<close> is.\<close>

type_synonym time = int

text \<open>A non-nil Go \<^verbatim>\<open>error\<close> with its message; the nil error is \<open>None\<close>.\<close>

datatype error = Error string

text \<open>How a call ends: it returns, the process exits (\<^verbatim>\<open>os.Exit\<close>), or it panics.\<close>

datatype 'a outcome = Return 'a | Exit int | Panic

record pem_Block =
  block_Type :: string
  block_Bytes :: bytes

record rsa_PublicKey =
  key_N :: int
  key_E :: int

record rsa_PrivateKey =
  key_Public :: rsa_PublicKey
  key_D :: int

record pkix_Name =
  CommonName :: string
  Organization :: "string list"

text \<open>
  The fields of \<^verbatim>\<open>x509.Certificate\<close> the controller sets in its templates, and \<open>Raw\<close>,
  the complete DER of a parsed certificate (empty in a template).
\<close>

record x509_Certificate =
  Raw :: bytes
  SerialNumber :: int
  Subject :: pkix_Name
  DNSNames :: "string list"
  NotBefore :: time
  NotAfter :: time
  KeyUsage :: int
  ExtKeyUsage :: "int list"
  BasicConstraintsValid :: bool
  IsCA :: bool

record x509_VerifyOptions =
  opt_DNSName :: string
  opt_Roots :: "x509_Certificate list"
  opt_CurrentTime :: time

text \<open>The content of an \<^verbatim>\<open>unstructured.Unstructured\<close> object.\<close>

datatype json = JString string | JObject "(string \<times> json) list"

record Service =
  svc_Name :: string
  svc_Namespace :: string

text \<open>A secret: its name and its \<open>Data\<close> map, which is nil (\<open>None\<close>) or a map.\<close>

record Secret =
  secret_Name :: string
  Data :: "(string \<rightharpoonup> bytes) option"

record KeyPairArtifacts =
  Cert :: x509_Certificate
  Key :: rsa_PrivateKey
  CertPEM :: bytes
  KeyPEM :: bytes

record Reconciler =
  SvcLabels :: "string \<rightharpoonup> string"
  SecretLabels :: "string \<rightharpoonup> string"
  CrdResources :: "string list"
  CertDir :: string
  dnsName :: string
  CAName :: string
  CAOrganization :: string
  RestartOnSecretRefresh :: bool

subsection \<open>The standard library and the cluster, as parameters\<close>

text \<open>
  \<open>rsa_GenerateKey\<close> and \<open>x509_CreateCertificate\<close> read \<^verbatim>\<open>rand.Reader\<close>: they take the
  state of the entropy source as their first argument. \<open>unstructured_NestedMap\<close>
  gives the pair (found, error) of the Go function; the map itself is never used.
\<close>

record stdlib =
  pem_Decode :: "bytes \<Rightarrow> pem_Block option"
  pem_Encode :: "pem_Block \<Rightarrow> error + bytes"
  x509_ParseCertificate :: "bytes \<Rightarrow> error + x509_Certificate"
  x509_CreateCertificate ::
    "nat \<Rightarrow> x509_Certificate \<Rightarrow> x509_Certificate \<Rightarrow> rsa_PublicKey \<Rightarrow> rsa_PrivateKey
      \<Rightarrow> error + bytes"
  x509_MarshalPKCS1PrivateKey :: "rsa_PrivateKey \<Rightarrow> bytes"
  x509_ParsePKCS1PrivateKey :: "bytes \<Rightarrow> error + rsa_PrivateKey"
  x509_Verify :: "x509_Certificate \<Rightarrow> x509_VerifyOptions \<Rightarrow> error option"
  tls_X509KeyPair :: "bytes \<Rightarrow> bytes \<Rightarrow> error option"
  rsa_GenerateKey :: "nat \<Rightarrow> nat \<Rightarrow> error + rsa_PrivateKey"
  base64_EncodeToString :: "bytes \<Rightarrow> string"
  unstructured_NestedMap :: "json \<Rightarrow> string list \<Rightarrow> bool \<times> error option"
  unstructured_SetNestedField :: "json \<Rightarrow> string \<Rightarrow> string list \<Rightarrow> error + json"

text \<open>
  What one pass observes of its surroundings. \<^verbatim>\<open>time.Now()\<close> is read up to three times
  in a pass; the model reads one instant, the reference time of the pass.
  \<open>client_Update\<close> is the answer of the API server to the n-th write of the pass.
\<close>

record cluster =
  time_Now :: time
  client_List_Service :: "(string \<rightharpoonup> string) \<Rightarrow> error + Service list"
  client_List_Secret :: "(string \<rightharpoonup> string) \<Rightarrow> error + Secret list"
  client_Get :: "string \<Rightarrow> error + json"
  client_Update :: "nat \<Rightarrow> error option"

text \<open>
  What a pass changes outside its arguments: the entropy it has consumed and the
  objects it has sent to the API server with \<^verbatim>\<open>Update\<close>, oldest first.
\<close>

record world =
  rand_Reader :: nat
  secret_Updates :: "Secret list"
  resource_Updates :: "json list"

subsection \<open>Constants\<close>

definition certName :: string where "certName = ''tls.crt''"
definition keyName :: string where "keyName = ''tls.key''"
definition caCertName :: string where "caCertName = ''ca.crt''"
definition caKeyName :: string where "caKeyName = ''ca.key''"

definition time_Hour :: time where "time_Hour = 3600 * 1000000000"

definition rotationCheckFrequency :: time where
  "rotationCheckFrequency = 12 * time_Hour"

definition certValidityDuration :: time where
  "certValidityDuration = 10 * 365 * 24 * time_Hour"

definition lookaheadInterval :: time where
  "lookaheadInterval = 90 * 24 * time_Hour"

definition KeyUsageDigitalSignature :: int where "KeyUsageDigitalSignature = push_bit 0 1"
definition KeyUsageKeyEncipherment :: int where "KeyUsageKeyEncipherment = push_bit 2 1"
definition KeyUsageCertSign :: int where "KeyUsageCertSign = push_bit 5 1"
definition ExtKeyUsageServerAuth :: int where "ExtKeyUsageServerAuth = 1"

subsection \<open>The secret\<close>

text \<open>Reading a key of \<^verbatim>\<open>secret.Data\<close>: the value and the \<^verbatim>\<open>ok\<close> flag; a nil map has no key.\<close>

definition data_lookup :: "Secret \<Rightarrow> string \<Rightarrow> bytes \<times> bool" where
  "data_lookup secret k =
     (case Data secret of
        None \<Rightarrow> ([], False)
      | Some m \<Rightarrow> (case m k of None \<Rightarrow> ([], False) | Some v \<Rightarrow> (v, True)))"

definition data_get :: "Secret \<Rightarrow> string \<Rightarrow> bytes" where
  "data_get secret k = fst (data_lookup secret k)"

definition populateSecret ::
  "bytes \<Rightarrow> bytes \<Rightarrow> KeyPairArtifacts \<Rightarrow> Secret \<Rightarrow> Secret" where
  "populateSecret cert key caArtifacts secret =
     (let m = (case Data secret of None \<Rightarrow> Map.empty | Some d \<Rightarrow> d)
      in secret\<lparr>Data := Some (m(caCertName \<mapsto> CertPEM caArtifacts,
                                  caKeyName \<mapsto> KeyPEM caArtifacts,
                                  certName \<mapsto> cert,
                                  keyName \<mapsto> key))\<rparr>)"

subsection \<open>The validity check\<close>

text \<open>
  \<^verbatim>\<open>ValidCert\<close> returns the pair (valid, error) of the Go function. Where the leaf has
  no PEM block the source returns the variable \<^verbatim>\<open>err\<close>, which holds the nil error of
  the successful \<^verbatim>\<open>tls.X509KeyPair\<close> call before it.
\<close>

definition ValidCert ::
  "stdlib \<Rightarrow> bytes \<Rightarrow> bytes \<Rightarrow> bytes \<Rightarrow> string \<Rightarrow> time \<Rightarrow> bool \<times> error option" where
  "ValidCert L caCert cert key dnsName' at =
     (if length caCert = 0 \<or> length cert = 0 \<or> length key = 0
      then (False, Some (Error ''empty cert''))
      else case pem_Decode L caCert of
        None \<Rightarrow> (False, Some (Error ''bad CA cert''))
      | Some caDer \<Rightarrow>
         (case x509_ParseCertificate L (block_Bytes caDer) of
            Inl err \<Rightarrow> (False, Some err)
          | Inr cac \<Rightarrow>
             (case tls_X509KeyPair L cert key of
                Some err \<Rightarrow> (False, Some err)
              | None \<Rightarrow>
                 (case pem_Decode L cert of
                    None \<Rightarrow> (False, None)
                  | Some b \<Rightarrow>
                     (case x509_ParseCertificate L (block_Bytes b) of
                        Inl err \<Rightarrow> (False, Some err)
                      | Inr crt \<Rightarrow>
                         (case x509_Verify L crt
                                 \<lparr>opt_DNSName = dnsName', opt_Roots = [cac],
                                  opt_CurrentTime = at\<rparr> of
                            Some err \<Rightarrow> (False, Some err)
                          | None \<Rightarrow> (True, None)))))))"

definition lookaheadTime :: "cluster \<Rightarrow> time" where
  "lookaheadTime C = time_Now C + lookaheadInterval"

definition validServerCert ::
  "stdlib \<Rightarrow> cluster \<Rightarrow> Reconciler \<Rightarrow> bytes \<Rightarrow> bytes \<Rightarrow> bytes \<Rightarrow> bool" where
  "validServerCert L C r caCert cert key =
     (case ValidCert L caCert cert key (dnsName r) (lookaheadTime C) of
        (valid, Some err) \<Rightarrow> False
      | (valid, None) \<Rightarrow> valid)"

definition validCACert :: "stdlib \<Rightarrow> cluster \<Rightarrow> Reconciler \<Rightarrow> bytes \<Rightarrow> bytes \<Rightarrow> bool" where
  "validCACert L C r cert key =
     (case ValidCert L cert cert key (CAName r) (lookaheadTime C) of
        (valid, Some err) \<Rightarrow> False
      | (valid, None) \<Rightarrow> valid)"

subsection \<open>Issuing certificates\<close>

text \<open>One read of \<^verbatim>\<open>rand.Reader\<close> moves the entropy source on.\<close>

definition read_rand :: "world \<Rightarrow> world" where
  "read_rand w = w\<lparr>rand_Reader := Suc (rand_Reader w)\<rparr>"

definition pemEncode :: "stdlib \<Rightarrow> bytes \<Rightarrow> rsa_PrivateKey \<Rightarrow> error + bytes \<times> bytes" where
  "pemEncode L certificateDER key =
     (case pem_Encode L \<lparr>block_Type = ''CERTIFICATE'', block_Bytes = certificateDER\<rparr> of
        Inl err \<Rightarrow> Inl err
      | Inr certBuf \<Rightarrow>
         (case pem_Encode L \<lparr>block_Type = ''RSA PRIVATE KEY'',
                              block_Bytes = x509_MarshalPKCS1PrivateKey L key\<rparr> of
            Inl err \<Rightarrow> Inl err
          | Inr keyBuf \<Rightarrow> Inr (certBuf, keyBuf)))"

text \<open>The template of \<^verbatim>\<open>CreateCACert\<close>; fields it does not set have Go's zero value.\<close>

definition CreateCACert_templ :: "Reconciler \<Rightarrow> time \<Rightarrow> time \<Rightarrow> x509_Certificate" where
  "CreateCACert_templ r begin' end' =
     \<lparr>Raw = [],
      SerialNumber = 0,
      Subject = \<lparr>CommonName = CAName r, Organization = [CAOrganization r]\<rparr>,
      DNSNames = [CAName r],
      NotBefore = begin',
      NotAfter = end',
      KeyUsage = KeyUsageDigitalSignature OR KeyUsageKeyEncipherment OR KeyUsageCertSign,
      ExtKeyUsage = [],
      BasicConstraintsValid = True,
      IsCA = True\<rparr>"

definition CreateCACert ::
  "stdlib \<Rightarrow> Reconciler \<Rightarrow> world \<Rightarrow> time \<Rightarrow> time \<Rightarrow> (error + KeyPairArtifacts) \<times> world" where
  "CreateCACert L r w begin' end' =
     (let templ = CreateCACert_templ r begin' end'; w1 = read_rand w
      in case rsa_GenerateKey L (rand_Reader w) 2048 of
           Inl err \<Rightarrow> (Inl err, w1)
         | Inr key \<Rightarrow>
            (let w2 = read_rand w1
             in case x509_CreateCertificate L (rand_Reader w1) templ templ (key_Public key) key of
                  Inl err \<Rightarrow> (Inl err, w2)
                | Inr der \<Rightarrow>
                   (case pemEncode L der key of
                      Inl err \<Rightarrow> (Inl err, w2)
                    | Inr (certPEM, keyPEM) \<Rightarrow>
                       (case x509_ParseCertificate L der of
                          Inl err \<Rightarrow> (Inl err, w2)
                        | Inr cert \<Rightarrow>
                           (Inr \<lparr>Cert = cert, Key = key, CertPEM = certPEM, KeyPEM = keyPEM\<rparr>,
                            w2)))))"

text \<open>The template of \<^verbatim>\<open>CreateCertPEM\<close>.\<close>

definition CreateCertPEM_templ :: "Reconciler \<Rightarrow> time \<Rightarrow> time \<Rightarrow> x509_Certificate" where
  "CreateCertPEM_templ r begin' end' =
     \<lparr>Raw = [],
      SerialNumber = 1,
      Subject = \<lparr>CommonName = dnsName r, Organization = []\<rparr>,
      DNSNames = [dnsName r],
      NotBefore = begin',
      NotAfter = end',
      KeyUsage = KeyUsageDigitalSignature OR KeyUsageKeyEncipherment,
      ExtKeyUsage = [ExtKeyUsageServerAuth],
      BasicConstraintsValid = True,
      IsCA = False\<rparr>"

text \<open>
  \<open>ca\<close> is a pointer: \<open>None\<close> is nil, and reading \<^verbatim>\<open>ca.Cert\<close> through it panics. The key
  is generated before \<open>ca\<close> is read.
\<close>

definition CreateCertPEM ::
  "stdlib \<Rightarrow> Reconciler \<Rightarrow> world \<Rightarrow> KeyPairArtifacts option \<Rightarrow> time \<Rightarrow> time
    \<Rightarrow> (error + bytes \<times> bytes) outcome \<times> world" where
  "CreateCertPEM L r w ca begin' end' =
     (let templ = CreateCertPEM_templ r begin' end'; w1 = read_rand w
      in case rsa_GenerateKey L (rand_Reader w) 2048 of
           Inl err \<Rightarrow> (Return (Inl err), w1)
         | Inr key \<Rightarrow>
            (case ca of
               None \<Rightarrow> (Panic, w1)
             | Some ca' \<Rightarrow>
                (let w2 = read_rand w1
                 in case x509_CreateCertificate L (rand_Reader w1) templ (Cert ca')
                           (key_Public key) (Key ca') of
                      Inl err \<Rightarrow> (Return (Inl err), w2)
                    | Inr der \<Rightarrow>
                       (case pemEncode L der key of
                          Inl err \<Rightarrow> (Return (Inl err), w2)
                        | Inr (certPEM, keyPEM) \<Rightarrow> (Return (Inr (certPEM, keyPEM)), w2)))))"

subsection \<open>Rebuilding the CA from the secret\<close>

text \<open>
  The pair (artifacts, error) of the Go function. Where the key has no PEM block the
  source returns \<^verbatim>\<open>nil, err\<close> with the nil error of the successful
  \<^verbatim>\<open>x509.ParseCertificate\<close> call before it: both components are nil.
\<close>

definition buildArtifactsFromSecret ::
  "stdlib \<Rightarrow> Secret \<Rightarrow> KeyPairArtifacts option \<times> error option" where
  "buildArtifactsFromSecret L secret =
     (case data_lookup secret caCertName of
        (caPem, False) \<Rightarrow>
          (None, Some (Error (''cert secret is not well-formed, missing '' @ caCertName)))
      | (caPem, True) \<Rightarrow>
         (case data_lookup secret caKeyName of
            (keyPem, False) \<Rightarrow>
              (None, Some (Error (''cert secret is not well-formed, missing '' @ caKeyName)))
          | (keyPem, True) \<Rightarrow>
             (case pem_Decode L caPem of
                None \<Rightarrow> (None, Some (Error ''bad CA cert''))
              | Some caDer \<Rightarrow>
                 (case x509_ParseCertificate L (block_Bytes caDer) of
                    Inl err \<Rightarrow> (None, Some err)
                  | Inr caCert \<Rightarrow>
                     (case pem_Decode L keyPem of
                        None \<Rightarrow> (None, None)
                      | Some keyDer \<Rightarrow>
                         (case x509_ParsePKCS1PrivateKey L (block_Bytes keyDer) of
                            Inl err \<Rightarrow> (None, Some err)
                          | Inr key \<Rightarrow>
                             (Some \<lparr>Cert = caCert, Key = key, CertPEM = caPem,
                                    KeyPEM = keyPem\<rparr>, None)))))))"

subsection \<open>The rotation pass\<close>

text \<open>The number of writes the pass has sent to the API server so far.\<close>

definition writes :: "world \<Rightarrow> nat" where
  "writes w = length (secret_Updates w) + length (resource_Updates w)"

definition writeSecret ::
  "cluster \<Rightarrow> world \<Rightarrow> bytes \<Rightarrow> bytes \<Rightarrow> KeyPairArtifacts \<Rightarrow> Secret
    \<Rightarrow> error option \<times> Secret \<times> world" where
  "writeSecret C w cert key caArtifacts secret =
     (let secret' = populateSecret cert key caArtifacts secret
      in (client_Update C (writes w), secret',
          w\<lparr>secret_Updates := secret_Updates w @ [secret']\<rparr>))"

definition refreshCerts ::
  "stdlib \<Rightarrow> cluster \<Rightarrow> Reconciler \<Rightarrow> world \<Rightarrow> bool \<Rightarrow> Secret
    \<Rightarrow> error option outcome \<times> Secret \<times> world" where
  "refreshCerts L C r w refreshCA secret =
     (let now = time_Now C;
          begin' = now + (- 1) * time_Hour;
          end' = now + certValidityDuration;
          issue = (\<lambda>caArtifacts w1.
            case CreateCertPEM L r w1 caArtifacts begin' end' of
              (Panic, w2) \<Rightarrow> (Panic, secret, w2)
            | (Exit n, w2) \<Rightarrow> (Exit n, secret, w2)
            | (Return (Inl err), w2) \<Rightarrow> (Return (Some err), secret, w2)
            | (Return (Inr (cert, key)), w2) \<Rightarrow>
               (case caArtifacts of
                  None \<Rightarrow> (Panic, secret, w2)
                | Some ca \<Rightarrow>
                   (case writeSecret C w2 cert key ca secret of
                      (Some err, secret', w3) \<Rightarrow> (Return (Some err), secret', w3)
                    | (None, secret', w3) \<Rightarrow> (Return None, secret', w3))))
      in if refreshCA
         then (case CreateCACert L r w begin' end' of
                 (Inl err, w1) \<Rightarrow> (Return (Some err), secret, w1)
               | (Inr ca, w1) \<Rightarrow> issue (Some ca) w1)
         else (case buildArtifactsFromSecret L secret of
                 (ca, Some err) \<Rightarrow> (Return (Some err), secret, w)
               | (ca, None) \<Rightarrow> issue ca w))"

text \<open>
  What \<^verbatim>\<open>refreshCertIfNeeded\<close> does with the result of \<^verbatim>\<open>refreshCerts\<close>, the same in
  both of its branches: an error becomes \<^verbatim>\<open>false, nil\<close>; after a refresh the process
  exits when \<^verbatim>\<open>RestartOnSecretRefresh\<close> is set.
\<close>

definition after_refresh ::
  "Reconciler \<Rightarrow> error option outcome \<times> Secret \<times> world
    \<Rightarrow> (bool \<times> error option) outcome \<times> Secret \<times> world" where
  "after_refresh r res =
     (case res of
        (Return (Some err), secret', w') \<Rightarrow> (Return (False, None), secret', w')
      | (Return None, secret', w') \<Rightarrow>
          (if RestartOnSecretRefresh r then (Exit 0, secret', w')
           else (Return (True, None), secret', w'))
      | (Exit n, secret', w') \<Rightarrow> (Exit n, secret', w')
      | (Panic, secret', w') \<Rightarrow> (Panic, secret', w'))"

definition refreshCertIfNeeded ::
  "stdlib \<Rightarrow> cluster \<Rightarrow> Reconciler \<Rightarrow> world \<Rightarrow> Secret
    \<Rightarrow> (bool \<times> error option) outcome \<times> Secret \<times> world" where
  "refreshCertIfNeeded L C r w secret =
     (if Data secret = None
         \<or> \<not> validCACert L C r (data_get secret caCertName) (data_get secret caKeyName)
      then after_refresh r (refreshCerts L C r w True secret)
      else if \<not> validServerCert L C r (data_get secret caCertName)
                  (data_get secret certName) (data_get secret keyName)
      then after_refresh r (refreshCerts L C r w False secret)
      else (Return (True, None), secret, w))"

subsection \<open>Patching the custom resource definition\<close>

definition clientConfig_path :: "string list" where
  "clientConfig_path = [''spec'', ''conversion'', ''webhook'', ''clientConfig'']"

definition clientConfig_missing :: error where
  "clientConfig_missing =
     Error ''`conversion.webhook.clientConfig` field not found in CustomResourceDefinition''"

definition injectSvcToConversionWebhook :: "stdlib \<Rightarrow> json \<Rightarrow> Service \<Rightarrow> error + json" where
  "injectSvcToConversionWebhook L crd service =
     (case unstructured_NestedMap L crd clientConfig_path of
        (found, Some err) \<Rightarrow> Inl err
      | (found, None) \<Rightarrow>
         (if \<not> found then Inl clientConfig_missing
          else case unstructured_SetNestedField L crd (svc_Name service)
                      (clientConfig_path @ [''service'', ''name'']) of
                 Inl err \<Rightarrow> Inl err
               | Inr crd1 \<Rightarrow>
                  (case unstructured_SetNestedField L crd1 (svc_Namespace service)
                          (clientConfig_path @ [''service'', ''namespace'']) of
                     Inl err \<Rightarrow> Inl err
                   | Inr crd2 \<Rightarrow> Inr crd2)))"

definition injectCertToConversionWebhook :: "stdlib \<Rightarrow> json \<Rightarrow> bytes \<Rightarrow> error + json" where
  "injectCertToConversionWebhook L crd certPem =
     (case unstructured_NestedMap L crd clientConfig_path of
        (found, Some err) \<Rightarrow> Inl err
      | (found, None) \<Rightarrow>
         (if \<not> found then Inl clientConfig_missing
          else case unstructured_SetNestedField L crd (base64_EncodeToString L certPem)
                      (clientConfig_path @ [''caBundle'']) of
                 Inl err \<Rightarrow> Inl err
               | Inr crd1 \<Rightarrow> Inr crd1))"

definition updateResource :: "cluster \<Rightarrow> world \<Rightarrow> json \<Rightarrow> error option \<times> world" where
  "updateResource C w updatedResource =
     (client_Update C (writes w),
      w\<lparr>resource_Updates := resource_Updates w @ [updatedResource]\<rparr>)"

text \<open>
  \<^verbatim>\<open>updateCRD\<close> returns its error, the reconciler (it sets \<^verbatim>\<open>r.dnsName\<close>) and the
  world. \<open>req\<close> is the name of the requested resource.
\<close>

definition updateCRD ::
  "stdlib \<Rightarrow> cluster \<Rightarrow> Reconciler \<Rightarrow> world \<Rightarrow> string
    \<Rightarrow> error option outcome \<times> Reconciler \<times> world" where
  "updateCRD L C r w req =
     (case client_List_Service C (SvcLabels r) of
        Inl err \<Rightarrow> (Return (Some err), r, w)
      | Inr svcItems \<Rightarrow>
         (if length svcItems \<noteq> 1
          then (Return (Some (Error ''multiple services match labels'')), r, w)
          else case client_List_Secret C (SecretLabels r) of
            Inl err \<Rightarrow> (Return (Some err), r, w)
          | Inr secretItems \<Rightarrow>
             (if length secretItems \<noteq> 1
              then (Return (Some (Error ''multiple secrets match labels'')), r, w)
              else case client_Get C req of
                Inl err \<Rightarrow> (Return (Some err), r, w)
              | Inr updatedResource \<Rightarrow>
                 (case injectSvcToConversionWebhook L updatedResource (svcItems ! 0) of
                    Inl err \<Rightarrow> (Return (Some err), r, w)
                  | Inr res1 \<Rightarrow>
                     (let r1 = r\<lparr>dnsName := svc_Name (svcItems ! 0) @ ''.''
                                    @ svc_Namespace (svcItems ! 0) @ ''.svc''\<rparr>
                      in case refreshCertIfNeeded L C r1 w (secretItems ! 0) of
                           (Exit n, secret', w1) \<Rightarrow> (Exit n, r1, w1)
                         | (Panic, secret', w1) \<Rightarrow> (Panic, r1, w1)
                         | (Return (need, Some err), secret', w1) \<Rightarrow> (Return (Some err), r1, w1)
                         | (Return (need, None), secret', w1) \<Rightarrow>
                            (if need
                             then (case buildArtifactsFromSecret L secret' of
                                     (artifacts, Some err) \<Rightarrow> (Return (Some err), r1, w1)
                                   | (None, None) \<Rightarrow> (Panic, r1, w1)
                                   | (Some artifacts, None) \<Rightarrow>
                                      (case injectCertToConversionWebhook L res1
                                              (CertPEM artifacts) of
                                         Inl err \<Rightarrow> (Return (Some err), r1, w1)
                                       | Inr res2 \<Rightarrow>
                                          (case updateResource C w1 res2 of
                                             (err, w2) \<Rightarrow> (Return err, r1, w2))))
                             else (case updateResource C w1 res1 of
                                     (err, w2) \<Rightarrow> (Return err, r1, w2))))))))"

fun contains :: "string list \<Rightarrow> string \<Rightarrow> bool" where
  "contains [] e = False"
| "contains (a # s) e = (if a = e then True else contains s e)"

definition Reconcile ::
  "stdlib \<Rightarrow> cluster \<Rightarrow> Reconciler \<Rightarrow> world \<Rightarrow> string
    \<Rightarrow> error option outcome \<times> Reconciler \<times> world" where
  "Reconcile L C r w req =
     (if contains (CrdResources r) req
      then (case updateCRD L C r w req of
              (Return (Some err), r', w') \<Rightarrow> (Return (Some err), r', w')
            | res \<Rightarrow> res)
      else (Return None, r, w))"

subsection \<open>The path that writes\<close>

text \<open>
  The successful path of \<^verbatim>\<open>refreshCerts\<close>, as a relation: the CA artifacts were issued
  or rebuilt, the leaf was issued under them, and the populated secret was sent to the
  API server, whose answer is the result.
\<close>

definition wrote ::
  "stdlib \<Rightarrow> cluster \<Rightarrow> Reconciler \<Rightarrow> world \<Rightarrow> bool \<Rightarrow> Secret
     \<Rightarrow> error option outcome \<times> Secret \<times> world \<Rightarrow> bool" where
  "wrote L C r w refreshCA secret res \<longleftrightarrow>
     (\<exists>ca cert key w1 w2.
        (if refreshCA
         then CreateCACert L r w (time_Now C + (- 1) * time_Hour)
                (time_Now C + certValidityDuration) = (Inr ca, w1)
         else buildArtifactsFromSecret L secret = (Some ca, None) \<and> w1 = w)
        \<and> CreateCertPEM L r w1 (Some ca) (time_Now C + (- 1) * time_Hour)
              (time_Now C + certValidityDuration) = (Return (Inr (cert, key)), w2)
        \<and> res = (Return (client_Update C (writes w2)), populateSecret cert key ca secret,
                  w2\<lparr>secret_Updates := secret_Updates w2 @ [populateSecret cert key ca secret]\<rparr>))"

section \<open>What the controller needs of the standard library\<close>

text \<open>
  The properties below speak about the library alone. Each is a documented behaviour
  of the Go packages; a theorem that depends on one names it as a hypothesis.
\<close>

definition time_Second :: time where "time_Second = 1000000000"

text \<open>A block with one of the two labels \<^verbatim>\<open>pemEncode\<close> writes decodes to itself.\<close>

definition pem_roundtrip :: "stdlib \<Rightarrow> bool" where
  "pem_roundtrip L \<longleftrightarrow>
     (\<forall>blk p. (block_Type blk = ''CERTIFICATE'' \<or> block_Type blk = ''RSA PRIVATE KEY'')
        \<longrightarrow> pem_Encode L blk = Inr p
        \<longrightarrow> p \<noteq> [] \<and> pem_Decode L p = Some blk)"

text \<open>Writing a block with one of these labels to a buffer does not fail.\<close>

definition pem_Encode_total :: "stdlib \<Rightarrow> bool" where
  "pem_Encode_total L \<longleftrightarrow>
     (\<forall>blk. (block_Type blk = ''CERTIFICATE'' \<or> block_Type blk = ''RSA PRIVATE KEY'')
        \<longrightarrow> (\<exists>p. pem_Encode L blk = Inr p))"

text \<open>A key is well formed when the PKCS #1 parser reads its encoding back.\<close>

definition wellformed_key :: "stdlib \<Rightarrow> rsa_PrivateKey \<Rightarrow> bool" where
  "wellformed_key L key \<longleftrightarrow>
     x509_ParsePKCS1PrivateKey L (x509_MarshalPKCS1PrivateKey L key) = Inr key"

text \<open>The keys \<^verbatim>\<open>rsa.GenerateKey\<close> returns are well formed.\<close>

definition generated_keys_wellformed :: "stdlib \<Rightarrow> bool" where
  "generated_keys_wellformed L \<longleftrightarrow>
     (\<forall>seed bits key. rsa_GenerateKey L seed bits = Inr key \<longrightarrow> wellformed_key L key)"

text \<open>\<^verbatim>\<open>tls.X509KeyPair\<close> fails on a certificate input without any PEM block.\<close>

definition keypair_needs_pem :: "stdlib \<Rightarrow> bool" where
  "keypair_needs_pem L \<longleftrightarrow>
     (\<forall>cert key. pem_Decode L cert = None \<longrightarrow> tls_X509KeyPair L cert key \<noteq> None)"

text \<open>
  \<^verbatim>\<open>tls.X509KeyPair\<close> accepts the two blobs \<^verbatim>\<open>pemEncode\<close> makes of a certificate
  created for the public half of a generated key and of that key.
\<close>

definition keypair_accepts_issued :: "stdlib \<Rightarrow> bool" where
  "keypair_accepts_issued L \<longleftrightarrow>
     (\<forall>seed seed' bits templ parent key priv der certPEM keyPEM.
        rsa_GenerateKey L seed bits = Inr key
        \<longrightarrow> x509_CreateCertificate L seed' templ parent (key_Public key) priv = Inr der
        \<longrightarrow> pemEncode L der key = Inr (certPEM, keyPEM)
        \<longrightarrow> tls_X509KeyPair L certPEM keyPEM = None)"

text \<open>
  The instant \<open>at\<close> lies inside the window of a template, one second before its end at
  the latest: DER stores instants in whole seconds.
\<close>

definition inside_window :: "x509_Certificate \<Rightarrow> time \<Rightarrow> bool" where
  "inside_window templ at \<longleftrightarrow> NotBefore templ \<le> at \<and> at + time_Second \<le> NotAfter templ"

text \<open>
  \<^verbatim>\<open>Verify\<close> accepts, as its own root and for the configured CA name, a self-signed
  certificate the library created from the CA template of the controller and parsed
  back, at an instant inside the window of the template.
\<close>

definition accepts_self_signed :: "stdlib \<Rightarrow> Reconciler \<Rightarrow> time \<Rightarrow> bool" where
  "accepts_self_signed L r at \<longleftrightarrow>
     (\<forall>seed seed' bits begin' end' key der c.
        rsa_GenerateKey L seed bits = Inr key
        \<longrightarrow> x509_CreateCertificate L seed' (CreateCACert_templ r begin' end')
              (CreateCACert_templ r begin' end') (key_Public key) key = Inr der
        \<longrightarrow> x509_ParseCertificate L der = Inr c
        \<longrightarrow> inside_window (CreateCACert_templ r begin' end') at
        \<longrightarrow> x509_Verify L c \<lparr>opt_DNSName = CAName r, opt_Roots = [c],
                               opt_CurrentTime = at\<rparr> = None)"

text \<open>
  The certificate \<open>P\<close> with the private key \<open>k\<close> can issue for the reconciler at \<open>at\<close>:
  whatever the library creates from the leaf template of the controller under \<open>P\<close>,
  signed with \<open>k\<close>, with \<open>at\<close> inside the window of the template, parses, and
  \<^verbatim>\<open>Verify\<close> accepts it for the host name against the root \<open>P\<close>.
\<close>

definition can_issue ::
  "stdlib \<Rightarrow> x509_Certificate \<Rightarrow> rsa_PrivateKey \<Rightarrow> Reconciler \<Rightarrow> time \<Rightarrow> bool" where
  "can_issue L P k r at \<longleftrightarrow>
     (\<forall>seed' begin' end' pub der.
        x509_CreateCertificate L seed' (CreateCertPEM_templ r begin' end') P pub k = Inr der
        \<longrightarrow> inside_window (CreateCertPEM_templ r begin' end') at
        \<longrightarrow> (\<exists>c. x509_ParseCertificate L der = Inr c
                 \<and> x509_Verify L c \<lparr>opt_DNSName = dnsName r, opt_Roots = [P],
                                      opt_CurrentTime = at\<rparr> = None))"

text \<open>The CA certificate and key a secret holds, as \<^verbatim>\<open>buildArtifactsFromSecret\<close> reads them.\<close>

definition stored_ca :: "stdlib \<Rightarrow> Secret \<Rightarrow> (x509_Certificate \<times> rsa_PrivateKey) option" where
  "stored_ca L secret =
     (case buildArtifactsFromSecret L secret of
        (Some ca, err) \<Rightarrow> Some (Cert ca, Key ca)
      | (None, err) \<Rightarrow> None)"

text \<open>The blobs of CA artifacts decode and parse to the artifacts.\<close>

definition ca_readable :: "stdlib \<Rightarrow> KeyPairArtifacts \<Rightarrow> bool" where
  "ca_readable L ca \<longleftrightarrow>
     (\<exists>blk kb. pem_Decode L (CertPEM ca) = Some blk
        \<and> x509_ParseCertificate L (block_Bytes blk) = Inr (Cert ca)
        \<and> pem_Decode L (KeyPEM ca) = Some kb
        \<and> x509_ParsePKCS1PrivateKey L (block_Bytes kb) = Inr (Key ca))"

section \<open>A reference instance of the parameters\<close>

text \<open>
  A small executable instance of the library and of a cluster, on which the
  definitions above can be run. Its PEM armour is a begin line in front of the
  payload; its keys are numbered and encoded in unary; it knows three certificates:
  the CA and the leaf the controller issues at \<open>ref_now\<close> and an older leaf of the same
  CA that expires ten days after \<open>ref_now\<close>.
\<close>

fun strip_prefix :: "string \<Rightarrow> string \<Rightarrow> string option" where
  "strip_prefix [] ys = Some ys"
| "strip_prefix (x # xs) [] = None"
| "strip_prefix (x # xs) (y # ys) = (if x = y then strip_prefix xs ys else None)"

definition armor :: "string \<Rightarrow> string" where
  "armor t = ''-----BEGIN '' @ t @ ''-----''"

definition ref_pem_Encode :: "pem_Block \<Rightarrow> error + bytes" where
  "ref_pem_Encode blk = Inr (armor (block_Type blk) @ block_Bytes blk)"

definition ref_pem_Decode :: "bytes \<Rightarrow> pem_Block option" where
  "ref_pem_Decode p =
     (case strip_prefix (armor ''CERTIFICATE'') p of
        Some bs \<Rightarrow> Some \<lparr>block_Type = ''CERTIFICATE'', block_Bytes = bs\<rparr>
      | None \<Rightarrow>
         (case strip_prefix (armor ''RSA PRIVATE KEY'') p of
            Some bs \<Rightarrow> Some \<lparr>block_Type = ''RSA PRIVATE KEY'', block_Bytes = bs\<rparr>
          | None \<Rightarrow>
             (case strip_prefix (armor ''PRIVATE KEY'') p of
                Some bs \<Rightarrow> Some \<lparr>block_Type = ''PRIVATE KEY'', block_Bytes = bs\<rparr>
              | None \<Rightarrow> None)))"

definition ref_key :: "nat \<Rightarrow> rsa_PrivateKey" where
  "ref_key n = \<lparr>key_Public = \<lparr>key_N = 2 * int n + 3, key_E = 65537\<rparr>, key_D = int n\<rparr>"

definition ref_unary :: "string \<Rightarrow> rsa_PrivateKey \<Rightarrow> bytes" where
  "ref_unary tag key = tag @ replicate (nat (key_D key)) (CHR ''k'')"

definition ref_parse_unary :: "string \<Rightarrow> bytes \<Rightarrow> rsa_PrivateKey option" where
  "ref_parse_unary tag bs =
     (case strip_prefix tag bs of
        None \<Rightarrow> None
      | Some rest \<Rightarrow>
          (if rest = replicate (length rest) (CHR ''k'') then Some (ref_key (length rest))
           else None))"

definition ref_ParsePKCS1PrivateKey :: "bytes \<Rightarrow> error + rsa_PrivateKey" where
  "ref_ParsePKCS1PrivateKey der =
     (case ref_parse_unary ''PKCS1:'' der of
        None \<Rightarrow> Inl (Error ''x509: failed to parse private key'')
      | Some key \<Rightarrow> Inr key)"

definition ref_now :: time where "ref_now = 1700000000 * 1000000000"

definition ref_r :: Reconciler where
  "ref_r = \<lparr>SvcLabels = Map.empty, SecretLabels = Map.empty,
            CrdResources = [''externalsecrets.external-secrets.io''],
            CertDir = ''/tmp/certs'',
            dnsName = ''webhook.default.svc'',
            CAName = ''external-secrets'',
            CAOrganization = ''external-secrets'',
            RestartOnSecretRefresh = False\<rparr>"

definition ref_ca_templ :: x509_Certificate where
  "ref_ca_templ =
     CreateCACert_templ ref_r (ref_now + (- 1) * time_Hour) (ref_now + certValidityDuration)"

definition ref_leaf_templ :: x509_Certificate where
  "ref_leaf_templ =
     CreateCertPEM_templ ref_r (ref_now + (- 1) * time_Hour) (ref_now + certValidityDuration)"

definition ref_ca_cert :: x509_Certificate where
  "ref_ca_cert = ref_ca_templ\<lparr>Raw := ''DER-CA''\<rparr>"

definition ref_leaf_cert :: x509_Certificate where
  "ref_leaf_cert = ref_leaf_templ\<lparr>Raw := ''DER-LEAF''\<rparr>"

definition ref_old_cert :: x509_Certificate where
  "ref_old_cert =
     ref_leaf_templ\<lparr>Raw := ''DER-OLD'',
                     NotBefore := ref_now - 3640 * 24 * time_Hour,
                     NotAfter := ref_now + 10 * 24 * time_Hour\<rparr>"

definition ref_ParseCertificate :: "bytes \<Rightarrow> error + x509_Certificate" where
  "ref_ParseCertificate der =
     (if der = ''DER-CA'' then Inr ref_ca_cert
      else if der = ''DER-LEAF'' then Inr ref_leaf_cert
      else if der = ''DER-OLD'' then Inr ref_old_cert
      else Inl (Error ''x509: malformed certificate''))"

text \<open>The CA holds key 0, both leaves hold key 2; both leaves are signed by the CA.\<close>

definition ref_subject_key :: "bytes \<Rightarrow> rsa_PublicKey option" where
  "ref_subject_key der =
     (if der = ''DER-CA'' then Some (key_Public (ref_key 0))
      else if der = ''DER-LEAF'' \<or> der = ''DER-OLD'' then Some (key_Public (ref_key 2))
      else None)"

definition ref_signed_by :: "x509_Certificate \<Rightarrow> x509_Certificate \<Rightarrow> bool" where
  "ref_signed_by c root \<longleftrightarrow> (c = ref_leaf_cert \<or> c = ref_old_cert) \<and> root = ref_ca_cert"

definition ref_CreateCertificate ::
  "nat \<Rightarrow> x509_Certificate \<Rightarrow> x509_Certificate \<Rightarrow> rsa_PublicKey \<Rightarrow> rsa_PrivateKey
    \<Rightarrow> error + bytes" where
  "ref_CreateCertificate seed templ parent pub priv =
     (if templ = ref_ca_templ \<and> parent = ref_ca_templ \<and> pub = key_Public (ref_key 0)
         \<and> priv = ref_key 0
      then Inr ''DER-CA''
      else if templ = ref_leaf_templ \<and> parent = ref_ca_cert \<and> pub = key_Public (ref_key 2)
         \<and> priv = ref_key 0
      then Inr ''DER-LEAF''
      else Inl (Error ''x509: not a certificate of the reference instance''))"

definition ref_expired :: "x509_Certificate \<Rightarrow> time \<Rightarrow> bool" where
  "ref_expired c at \<longleftrightarrow> at < NotBefore c \<or> NotAfter c < at"

definition ref_Verify :: "x509_Certificate \<Rightarrow> x509_VerifyOptions \<Rightarrow> error option" where
  "ref_Verify c opts =
     (if ref_expired c (opt_CurrentTime opts)
      then Some (Error ''x509: certificate has expired or is not yet valid'')
      else if opt_DNSName opts \<noteq> [] \<and> opt_DNSName opts \<notin> set (DNSNames c)
      then Some (Error ''x509: certificate is valid for other names'')
      else if c \<in> set (opt_Roots opts) then None
      else if list_ex (\<lambda>root. ref_signed_by c root \<and> BasicConstraintsValid root \<and> IsCA root
                          \<and> \<not> ref_expired root (opt_CurrentTime opts)) (opt_Roots opts)
      then None
      else Some (Error ''x509: certificate signed by unknown authority''))"

definition ref_X509KeyPair :: "bytes \<Rightarrow> bytes \<Rightarrow> error option" where
  "ref_X509KeyPair certPEMBlock keyPEMBlock =
     (case ref_pem_Decode certPEMBlock of
        None \<Rightarrow> Some (Error ''tls: failed to find any PEM data in certificate input'')
      | Some cb \<Rightarrow>
         (if block_Type cb \<noteq> ''CERTIFICATE''
          then Some (Error ''tls: failed to find certificate PEM data in certificate input'')
          else case ref_pem_Decode keyPEMBlock of
            None \<Rightarrow> Some (Error ''tls: failed to find any PEM data in key input'')
          | Some kb \<Rightarrow>
             (case (if block_Type kb = ''RSA PRIVATE KEY''
                    then ref_parse_unary ''PKCS1:'' (block_Bytes kb)
                    else if block_Type kb = ''PRIVATE KEY''
                    then ref_parse_unary ''PKCS8:'' (block_Bytes kb)
                    else None) of
                None \<Rightarrow> Some (Error ''tls: failed to parse private key'')
              | Some key \<Rightarrow>
                 (case ref_subject_key (block_Bytes cb) of
                    None \<Rightarrow> Some (Error ''x509: malformed certificate'')
                  | Some pub \<Rightarrow>
                     (if pub = key_Public key then None
                      else Some (Error ''tls: private key does not match public key''))))))"

definition ref_lib :: stdlib where
  "ref_lib =
     \<lparr>pem_Decode = ref_pem_Decode,
      pem_Encode = ref_pem_Encode,
      x509_ParseCertificate = ref_ParseCertificate,
      x509_CreateCertificate = ref_CreateCertificate,
      x509_MarshalPKCS1PrivateKey = ref_unary ''PKCS1:'',
      x509_ParsePKCS1PrivateKey = ref_ParsePKCS1PrivateKey,
      x509_Verify = ref_Verify,
      tls_X509KeyPair = ref_X509KeyPair,
      rsa_GenerateKey = (\<lambda>seed bits. Inr (ref_key seed)),
      base64_EncodeToString = (\<lambda>bs. bs),
      unstructured_NestedMap = (\<lambda>obj fields. (True, None)),
      unstructured_SetNestedField = (\<lambda>obj v fields. Inr obj)\<rparr>"

definition ref_secret :: Secret where
  "ref_secret = \<lparr>secret_Name = ''external-secrets-webhook'', Data = None\<rparr>"

definition ref_service :: Service where
  "ref_service = \<lparr>svc_Name = ''webhook'', svc_Namespace = ''default''\<rparr>"

definition ref_cluster :: cluster where
  "ref_cluster =
     \<lparr>time_Now = ref_now,
      client_List_Service = (\<lambda>labels. Inr [ref_service]),
      client_List_Secret = (\<lambda>labels. Inr [ref_secret]),
      client_Get = (\<lambda>name. Inr (JObject [])),
      client_Update = (\<lambda>n. None)\<rparr>"

definition ref_world :: world where
  "ref_world = \<lparr>rand_Reader = 0, secret_Updates = [], resource_Updates = []\<rparr>"

text \<open>The blobs of the reference certificates and keys.\<close>

definition ref_ca_pem :: bytes where "ref_ca_pem = armor ''CERTIFICATE'' @ ''DER-CA''"
definition ref_leaf_pem :: bytes where "ref_leaf_pem = armor ''CERTIFICATE'' @ ''DER-LEAF''"
definition ref_old_pem :: bytes where "ref_old_pem = armor ''CERTIFICATE'' @ ''DER-OLD''"

definition ref_key_pem :: "nat \<Rightarrow> bytes" where
  "ref_key_pem n = armor ''RSA PRIVATE KEY'' @ ref_unary ''PKCS1:'' (ref_key n)"

definition ref_pkcs8_pem :: "nat \<Rightarrow> bytes" where
  "ref_pkcs8_pem n = armor ''PRIVATE KEY'' @ ref_unary ''PKCS8:'' (ref_key n)"

text \<open>A secret with the reference CA and a given leaf and CA key.\<close>

definition ref_bundle :: "bytes \<Rightarrow> bytes \<Rightarrow> bytes \<Rightarrow> Secret" where
  "ref_bundle caKey leaf leafKey =
     \<lparr>secret_Name = ''external-secrets-webhook'',
      Data = Some [caCertName \<mapsto> ref_ca_pem, caKeyName \<mapsto> caKey,
                   certName \<mapsto> leaf, keyName \<mapsto> leafKey]\<rparr>"

text \<open>The CA artifacts the controller issues at \<open>ref_now\<close>, and the window it gives them.\<close>

definition ref_ca :: KeyPairArtifacts where
  "ref_ca = \<lparr>Cert = ref_ca_cert, Key = ref_key 0, CertPEM = ref_ca_pem, KeyPEM = ref_key_pem 0\<rparr>"

definition ref_begin :: time where "ref_begin = ref_now + (- 1) * time_Hour"
definition ref_end :: time where "ref_end = ref_now + certValidityDuration"

section \<open>The reference instance meets the library properties\<close>

lemma strip_prefix_append: "strip_prefix xs (xs @ ys) = Some ys"
  by (induction xs) auto

lemma ref_pem_Decode_certificate:
  "ref_pem_Decode (armor ''CERTIFICATE'' @ bs)
     = Some \<lparr>block_Type = ''CERTIFICATE'', block_Bytes = bs\<rparr>"
  by (simp add: ref_pem_Decode_def strip_prefix_append)

lemma ref_pem_Decode_rsa:
  "ref_pem_Decode (armor ''RSA PRIVATE KEY'' @ bs)
     = Some \<lparr>block_Type = ''RSA PRIVATE KEY'', block_Bytes = bs\<rparr>"
proof -
  have "strip_prefix (armor ''CERTIFICATE'') (armor ''RSA PRIVATE KEY'' @ bs) = None"
    by (simp add: armor_def)
  then show ?thesis
    by (simp add: ref_pem_Decode_def strip_prefix_append)
qed

lemma ref_pem_Decode_pkcs8:
  "ref_pem_Decode (armor ''PRIVATE KEY'' @ bs)
     = Some \<lparr>block_Type = ''PRIVATE KEY'', block_Bytes = bs\<rparr>"
proof -
  have "strip_prefix (armor ''CERTIFICATE'') (armor ''PRIVATE KEY'' @ bs) = None"
    and "strip_prefix (armor ''RSA PRIVATE KEY'') (armor ''PRIVATE KEY'' @ bs) = None"
    by (simp_all add: armor_def)
  then show ?thesis
    by (simp add: ref_pem_Decode_def strip_prefix_append)
qed

lemma ref_pem_roundtrip: "pem_roundtrip ref_lib"
  unfolding pem_roundtrip_def
proof (intro allI impI)
  fix blk p
  assume t: "block_Type blk = ''CERTIFICATE'' \<or> block_Type blk = ''RSA PRIVATE KEY''"
    and e: "pem_Encode ref_lib blk = Inr p"
  from e have p: "p = armor (block_Type blk) @ block_Bytes blk"
    by (auto simp: ref_lib_def ref_pem_Encode_def)
  have ne: "p \<noteq> []" by (simp add: p armor_def)
  from t have "ref_pem_Decode p = Some blk"
    by (auto simp: p ref_pem_Decode_certificate ref_pem_Decode_rsa)
  with ne show "p \<noteq> [] \<and> pem_Decode ref_lib p = Some blk"
    by (simp add: ref_lib_def)
qed

lemma ref_pem_Encode_total: "pem_Encode_total ref_lib"
  by (simp add: pem_Encode_total_def ref_lib_def ref_pem_Encode_def)

lemma ref_parse_unary_unary:
  "ref_parse_unary tag (ref_unary tag (ref_key n)) = Some (ref_key n)"
  by (simp add: ref_parse_unary_def ref_unary_def strip_prefix_append ref_key_def)

lemma ref_wellformed_key: "wellformed_key ref_lib (ref_key n)"
  by (simp add: wellformed_key_def ref_lib_def ref_ParsePKCS1PrivateKey_def
      ref_parse_unary_unary)

lemma ref_keypair_needs_pem: "keypair_needs_pem ref_lib"
  by (simp add: keypair_needs_pem_def ref_lib_def ref_X509KeyPair_def)

lemma ref_decode_ca:
  "pem_Decode ref_lib ref_ca_pem
     = Some \<lparr>block_Type = ''CERTIFICATE'', block_Bytes = ''DER-CA''\<rparr>"
  by (simp add: ref_lib_def ref_ca_pem_def ref_pem_Decode_certificate)

lemma ref_decode_leaf:
  "pem_Decode ref_lib ref_leaf_pem
     = Some \<lparr>block_Type = ''CERTIFICATE'', block_Bytes = ''DER-LEAF''\<rparr>"
  by (simp add: ref_lib_def ref_leaf_pem_def ref_pem_Decode_certificate)

lemma ref_decode_old:
  "pem_Decode ref_lib ref_old_pem
     = Some \<lparr>block_Type = ''CERTIFICATE'', block_Bytes = ''DER-OLD''\<rparr>"
  by (simp add: ref_lib_def ref_old_pem_def ref_pem_Decode_certificate)

lemma ref_decode_key:
  "pem_Decode ref_lib (ref_key_pem n)
     = Some \<lparr>block_Type = ''RSA PRIVATE KEY'',
             block_Bytes = ref_unary ''PKCS1:'' (ref_key n)\<rparr>"
  by (simp add: ref_lib_def ref_key_pem_def ref_pem_Decode_rsa)

lemma ref_decode_pkcs8:
  "pem_Decode ref_lib (ref_pkcs8_pem n)
     = Some \<lparr>block_Type = ''PRIVATE KEY'', block_Bytes = ref_unary ''PKCS8:'' (ref_key n)\<rparr>"
  by (simp add: ref_lib_def ref_pkcs8_pem_def ref_pem_Decode_pkcs8)

lemma ref_parse_ca: "x509_ParseCertificate ref_lib ''DER-CA'' = Inr ref_ca_cert"
  and ref_parse_leaf: "x509_ParseCertificate ref_lib ''DER-LEAF'' = Inr ref_leaf_cert"
  and ref_parse_old: "x509_ParseCertificate ref_lib ''DER-OLD'' = Inr ref_old_cert"
  by (simp_all add: ref_lib_def ref_ParseCertificate_def)

lemma ref_pems_nonempty:
  "ref_ca_pem \<noteq> []" "ref_leaf_pem \<noteq> []" "ref_old_pem \<noteq> []"
  "ref_key_pem n \<noteq> []" "ref_pkcs8_pem n \<noteq> []"
  by (simp_all add: ref_ca_pem_def ref_leaf_pem_def ref_old_pem_def ref_key_pem_def
      ref_pkcs8_pem_def armor_def)

lemma ref_public_inject: "key_Public (ref_key m) = key_Public (ref_key n) \<longleftrightarrow> m = n"
  by (auto simp: ref_key_def)

lemma ref_keypair_leaf: "tls_X509KeyPair ref_lib ref_leaf_pem (ref_key_pem 2) = None"
  and ref_keypair_old: "tls_X509KeyPair ref_lib ref_old_pem (ref_key_pem 2) = None"
  and ref_keypair_ca: "tls_X509KeyPair ref_lib ref_ca_pem (ref_key_pem 0) = None"
  and ref_keypair_ca_pkcs8: "tls_X509KeyPair ref_lib ref_ca_pem (ref_pkcs8_pem 0) = None"
  using ref_decode_ca ref_decode_leaf ref_decode_old ref_decode_key ref_decode_pkcs8
  by (simp_all add: ref_lib_def ref_X509KeyPair_def ref_parse_unary_unary
      ref_subject_key_def)

lemmas ref_cert_defs =
  ref_leaf_cert_def ref_ca_cert_def ref_old_cert_def ref_leaf_templ_def ref_ca_templ_def
  CreateCACert_templ_def CreateCertPEM_templ_def

lemma ref_certs_distinct:
  "ref_leaf_cert \<noteq> ref_ca_cert" "ref_old_cert \<noteq> ref_ca_cert" "ref_old_cert \<noteq> ref_leaf_cert"
  by (simp_all add: ref_cert_defs)

lemma ref_windows:
  "NotBefore ref_ca_cert = ref_now - time_Hour"
  "NotAfter ref_ca_cert = ref_now + certValidityDuration"
  "NotBefore ref_leaf_cert = ref_now - time_Hour"
  "NotAfter ref_leaf_cert = ref_now + certValidityDuration"
  "NotBefore ref_old_cert = ref_now - 3640 * 24 * time_Hour"
  "NotAfter ref_old_cert = ref_now + 10 * 24 * time_Hour"
  by (simp_all add: ref_cert_defs)

lemma ref_ca_fields:
  "DNSNames ref_ca_cert = [''external-secrets'']" "IsCA ref_ca_cert"
  "BasicConstraintsValid ref_ca_cert"
  by (simp_all add: ref_cert_defs ref_r_def)

lemma ref_leaf_fields:
  "DNSNames ref_leaf_cert = [''webhook.default.svc'']"
  "DNSNames ref_old_cert = [''webhook.default.svc'']"
  by (simp_all add: ref_cert_defs ref_r_def)

text \<open>
  The reference \<^verbatim>\<open>Verify\<close> accepts a leaf of the reference CA exactly when neither the
  leaf nor the CA is outside its window.
\<close>

lemma ref_Verify_leaf:
  "c = ref_leaf_cert \<or> c = ref_old_cert \<Longrightarrow>
   x509_Verify ref_lib c
       \<lparr>opt_DNSName = ''webhook.default.svc'', opt_Roots = [ref_ca_cert],
        opt_CurrentTime = at\<rparr> = None
     \<longleftrightarrow> \<not> ref_expired c at \<and> \<not> ref_expired ref_ca_cert at"
  using ref_certs_distinct
  by (auto simp add: ref_lib_def ref_Verify_def ref_signed_by_def ref_ca_fields
      ref_leaf_fields)

lemma ref_pemEncode:
  "pemEncode ref_lib der (ref_key n) = Inr (armor ''CERTIFICATE'' @ der, ref_key_pem n)"
  by (simp add: pemEncode_def ref_lib_def ref_pem_Encode_def ref_key_pem_def)

lemma ref_templs:
  "CreateCACert_templ ref_r ref_begin ref_end = ref_ca_templ"
  "CreateCertPEM_templ ref_r ref_begin ref_end = ref_leaf_templ"
  by (simp_all add: ref_ca_templ_def ref_leaf_templ_def ref_begin_def ref_end_def)

lemma ref_templs_distinct: "ref_leaf_templ \<noteq> ref_ca_templ"
  by (simp add: ref_leaf_templ_def ref_ca_templ_def CreateCACert_templ_def
      CreateCertPEM_templ_def)

lemma ref_create_ca:
  "x509_CreateCertificate ref_lib seed ref_ca_templ ref_ca_templ (key_Public (ref_key 0))
     (ref_key 0) = Inr ''DER-CA''"
  by (simp add: ref_lib_def ref_CreateCertificate_def)

lemma ref_create_leaf:
  "x509_CreateCertificate ref_lib seed ref_leaf_templ ref_ca_cert (key_Public (ref_key 2))
     (ref_key 0) = Inr ''DER-LEAF''"
  using ref_templs_distinct by (simp add: ref_lib_def ref_CreateCertificate_def)

lemma ref_GenerateKey: "rsa_GenerateKey ref_lib seed bits = Inr (ref_key seed)"
  by (simp add: ref_lib_def)

lemma ref_CreateCACert:
  "CreateCACert ref_lib ref_r ref_world ref_begin ref_end
     = (Inr ref_ca, ref_world\<lparr>rand_Reader := 2\<rparr>)"
  by (simp add: CreateCACert_def ref_templs ref_GenerateKey ref_world_def read_rand_def
      ref_create_ca ref_pemEncode ref_parse_ca ref_ca_def ref_ca_pem_def)

lemma ref_CreateCertPEM:
  "CreateCertPEM ref_lib ref_r (ref_world\<lparr>rand_Reader := 2\<rparr>) (Some ref_ca) ref_begin ref_end
     = (Return (Inr (ref_leaf_pem, ref_key_pem 2)), ref_world\<lparr>rand_Reader := 4\<rparr>)"
  by (simp add: CreateCertPEM_def ref_templs ref_GenerateKey ref_world_def read_rand_def
      ref_create_leaf ref_pemEncode ref_ca_def ref_leaf_pem_def)

lemma ref_refreshCerts_full:
  "refreshCerts ref_lib ref_cluster ref_r ref_world True ref_secret
     = (Return None, populateSecret ref_leaf_pem (ref_key_pem 2) ref_ca ref_secret,
        \<lparr>rand_Reader = 4,
         secret_Updates = [populateSecret ref_leaf_pem (ref_key_pem 2) ref_ca ref_secret],
         resource_Updates = []\<rparr>)"
proof -
  have t: "time_Now ref_cluster + (- 1) * time_Hour = ref_begin"
    "time_Now ref_cluster + certValidityDuration = ref_end"
    by (simp_all add: ref_cluster_def ref_begin_def ref_end_def)
  show ?thesis
    unfolding refreshCerts_def Let_def t
    by (simp add: ref_CreateCACert ref_CreateCertPEM)
      (simp add: writeSecret_def writes_def ref_cluster_def ref_world_def Let_def)
qed

section \<open>Properties of the controller\<close>

lemma lookaheadInterval_pos: "0 < lookaheadInterval"
  by (simp add: lookaheadInterval_def time_Hour_def)


lemma names_distinct:
  "caCertName \<noteq> caKeyName" "caCertName \<noteq> certName" "caCertName \<noteq> keyName"
  "caKeyName \<noteq> certName" "caKeyName \<noteq> keyName" "certName \<noteq> keyName"
  by (simp_all add: caCertName_def caKeyName_def certName_def keyName_def)

lemma data_get_populateSecret:
  "data_get (populateSecret cert key ca secret) caCertName = CertPEM ca"
  "data_get (populateSecret cert key ca secret) caKeyName = KeyPEM ca"
  "data_get (populateSecret cert key ca secret) certName = cert"
  "data_get (populateSecret cert key ca secret) keyName = key"
  using names_distinct by (simp_all add: data_get_def data_lookup_def populateSecret_def)

subsection \<open>The validity check\<close>

text \<open>
  Claim C8. Whenever the leaf certificate blob contains no decodable PEM block,
  \<^verbatim>\<open>ValidCert\<close> returns false together with a non-nil error, for every CA blob, key
  blob, name and instant. The library property used is that \<^verbatim>\<open>tls.X509KeyPair\<close>
  rejects a certificate input without a PEM block: that call comes first and reports
  the malformed blob, so the later branch of \<^verbatim>\<open>ValidCert\<close> that decodes the leaf
  and would return a nil error is never the one taken.
\<close>

theorem ValidCert_leaf_without_pem:
  assumes "keypair_needs_pem L" and "pem_Decode L cert = None"
  shows "fst (ValidCert L caCert cert key h at) = False
         \<and> snd (ValidCert L caCert cert key h at) \<noteq> None"
proof -
  from assms have "tls_X509KeyPair L cert key \<noteq> None"
    by (simp add: keypair_needs_pem_def)
  then show ?thesis
    by (auto simp: ValidCert_def split: option.splits sum.splits)
qed

theorem ValidCert_leaf_without_pem_witness:
  "pem_Decode ref_lib ''not a certificate'' = None
   \<and> fst (ValidCert ref_lib ref_ca_pem ''not a certificate'' (ref_key_pem 2)
            ''webhook.default.svc'' ref_now) = False
   \<and> snd (ValidCert ref_lib ref_ca_pem ''not a certificate'' (ref_key_pem 2)
            ''webhook.default.svc'' ref_now) \<noteq> None"
proof -
  have h: "pem_Decode ref_lib ''not a certificate'' = None"
    by (simp add: ref_lib_def ref_pem_Decode_def armor_def)
  show ?thesis
    using h ValidCert_leaf_without_pem [OF ref_keypair_needs_pem h] by simp
qed

text \<open>
  Claim C1. Take a CA blob, a leaf blob, a key blob and a name that form a
  structurally valid signed chain: the blobs are not empty, both certificates decode
  and parse, the key matches the leaf, and the verdict of the library's chain
  verification at the lookahead instant is decided by the leaf's validity window
  alone. Then the validity check at \<open>lookaheadTime\<close>, that is now + 90 days, as the
  engine runs it, returns true when now lies in the leaf's window shortened by the
  lookahead interval, and returns false with an error when now is later than
  \<open>NotAfter\<close> minus the lookahead interval: a leaf that expires within 90 days counts
  as invalid.
\<close>

theorem ValidCert_lookahead:
  assumes nonempty: "caCert \<noteq> []" "cert \<noteq> []" "key \<noteq> []"
    and ca: "pem_Decode L caCert = Some caDer"
            "x509_ParseCertificate L (block_Bytes caDer) = Inr cac"
    and pair: "tls_X509KeyPair L cert key = None"
    and leaf: "pem_Decode L cert = Some b" "x509_ParseCertificate L (block_Bytes b) = Inr crt"
    and chain: "x509_Verify L crt \<lparr>opt_DNSName = dnsName r, opt_Roots = [cac],
                                   opt_CurrentTime = lookaheadTime C\<rparr> = None
                \<longleftrightarrow> NotBefore crt \<le> lookaheadTime C \<and> lookaheadTime C \<le> NotAfter crt"
  shows "(NotBefore crt \<le> time_Now C \<and> time_Now C \<le> NotAfter crt - lookaheadInterval
            \<longrightarrow> ValidCert L caCert cert key (dnsName r) (lookaheadTime C) = (True, None)
                \<and> validServerCert L C r caCert cert key)
       \<and> (NotAfter crt - lookaheadInterval < time_Now C
            \<longrightarrow> fst (ValidCert L caCert cert key (dnsName r) (lookaheadTime C)) = False
                \<and> snd (ValidCert L caCert cert key (dnsName r) (lookaheadTime C)) \<noteq> None
                \<and> \<not> validServerCert L C r caCert cert key)"
proof -
  let ?v = "x509_Verify L crt \<lparr>opt_DNSName = dnsName r, opt_Roots = [cac],
                               opt_CurrentTime = lookaheadTime C\<rparr>"
  have eq: "ValidCert L caCert cert key (dnsName r) (lookaheadTime C)
              = (case ?v of Some err \<Rightarrow> (False, Some err) | None \<Rightarrow> (True, None))"
    using nonempty ca pair leaf by (simp add: ValidCert_def)
  have early: "NotBefore crt \<le> time_Now C \<and> time_Now C \<le> NotAfter crt - lookaheadInterval
                 \<longrightarrow> ?v = None"
    using chain lookaheadInterval_pos by (simp add: lookaheadTime_def)
  have late: "NotAfter crt - lookaheadInterval < time_Now C \<longrightarrow> ?v \<noteq> None"
    using chain by (simp add: lookaheadTime_def)
  show ?thesis
    using early late by (auto simp: eq validServerCert_def split: option.splits)
qed

theorem ValidCert_lookahead_witness:
  "ValidCert ref_lib ref_ca_pem ref_leaf_pem (ref_key_pem 2) (dnsName ref_r)
      (lookaheadTime ref_cluster) = (True, None)
   \<and> validServerCert ref_lib ref_cluster ref_r ref_ca_pem ref_leaf_pem (ref_key_pem 2)
   \<and> fst (ValidCert ref_lib ref_ca_pem ref_old_pem (ref_key_pem 2) (dnsName ref_r)
           (lookaheadTime ref_cluster)) = False
   \<and> snd (ValidCert ref_lib ref_ca_pem ref_old_pem (ref_key_pem 2) (dnsName ref_r)
           (lookaheadTime ref_cluster)) \<noteq> None
   \<and> \<not> validServerCert ref_lib ref_cluster ref_r ref_ca_pem ref_old_pem (ref_key_pem 2)"
proof -
  have t: "lookaheadTime ref_cluster = ref_now + lookaheadInterval" "time_Now ref_cluster = ref_now"
    by (simp_all add: lookaheadTime_def ref_cluster_def)
  have n: "dnsName ref_r = ''webhook.default.svc''" by (simp add: ref_r_def)
  have c1: "x509_Verify ref_lib ref_leaf_cert
              \<lparr>opt_DNSName = dnsName ref_r, opt_Roots = [ref_ca_cert],
               opt_CurrentTime = lookaheadTime ref_cluster\<rparr> = None
            \<longleftrightarrow> NotBefore ref_leaf_cert \<le> lookaheadTime ref_cluster
                \<and> lookaheadTime ref_cluster \<le> NotAfter ref_leaf_cert"
    by (simp add: n t ref_Verify_leaf ref_expired_def ref_windows lookaheadInterval_def
        certValidityDuration_def time_Hour_def)
  have c2: "x509_Verify ref_lib ref_old_cert
              \<lparr>opt_DNSName = dnsName ref_r, opt_Roots = [ref_ca_cert],
               opt_CurrentTime = lookaheadTime ref_cluster\<rparr> = None
            \<longleftrightarrow> NotBefore ref_old_cert \<le> lookaheadTime ref_cluster
                \<and> lookaheadTime ref_cluster \<le> NotAfter ref_old_cert"
    by (simp add: n t ref_Verify_leaf ref_expired_def ref_windows lookaheadInterval_def
        certValidityDuration_def time_Hour_def)
  have w1: "NotBefore ref_leaf_cert \<le> time_Now ref_cluster
            \<and> time_Now ref_cluster \<le> NotAfter ref_leaf_cert - lookaheadInterval"
    by (simp add: t ref_windows lookaheadInterval_def certValidityDuration_def time_Hour_def)
  have w2: "NotAfter ref_old_cert - lookaheadInterval < time_Now ref_cluster"
    by (simp add: t ref_windows lookaheadInterval_def time_Hour_def)
  show ?thesis
    using w1 w2
      ValidCert_lookahead [OF ref_pems_nonempty(1) ref_pems_nonempty(2) ref_pems_nonempty(4)
        ref_decode_ca _ ref_keypair_leaf ref_decode_leaf _ c1, simplified, OF ref_parse_ca ref_parse_leaf]
      ValidCert_lookahead [OF ref_pems_nonempty(1) ref_pems_nonempty(3) ref_pems_nonempty(4)
        ref_decode_ca _ ref_keypair_old ref_decode_old _ c2, simplified, OF ref_parse_ca ref_parse_old]
    by simp
qed

subsection \<open>The PEM codec\<close>

text \<open>
  Claim C9. For a DER string the library parses as a certificate and a well-formed
  RSA key, \<^verbatim>\<open>pemEncode\<close> does not fail, the first PEM blob decodes to a block whose
  bytes are the DER string, the second decodes to a block the PKCS #1 parser reads
  back as the key, and \<^verbatim>\<open>buildArtifactsFromSecret\<close>, the decoder of the controller,
  rebuilds from a secret holding the two blobs exactly the certificate, the key and
  the two blobs. The library properties used are that a written PEM block decodes to
  itself and that writing one to a buffer does not fail.
\<close>

theorem pemEncode_roundtrip:
  assumes rt: "pem_roundtrip L" and tot: "pem_Encode_total L"
    and key: "wellformed_key L key"
    and der: "x509_ParseCertificate L der = Inr c"
  shows "\<exists>certPEM keyPEM keyBlk.
           pemEncode L der key = Inr (certPEM, keyPEM)
           \<and> pem_Decode L certPEM = Some \<lparr>block_Type = ''CERTIFICATE'', block_Bytes = der\<rparr>
           \<and> pem_Decode L keyPEM = Some keyBlk
           \<and> x509_ParsePKCS1PrivateKey L (block_Bytes keyBlk) = Inr key
           \<and> buildArtifactsFromSecret L
               (secret\<lparr>Data := Some (m(caCertName \<mapsto> certPEM, caKeyName \<mapsto> keyPEM))\<rparr>)
             = (Some \<lparr>Cert = c, Key = key, CertPEM = certPEM, KeyPEM = keyPEM\<rparr>, None)"
proof -
  let ?cb = "\<lparr>block_Type = ''CERTIFICATE'', block_Bytes = der\<rparr>"
  let ?kb = "\<lparr>block_Type = ''RSA PRIVATE KEY'',
              block_Bytes = x509_MarshalPKCS1PrivateKey L key\<rparr>"
  from tot obtain cp where cp: "pem_Encode L ?cb = Inr cp"
    unfolding pem_Encode_total_def by fastforce
  from tot obtain kp where kp: "pem_Encode L ?kb = Inr kp"
    unfolding pem_Encode_total_def by fastforce
  from rt cp have dc: "pem_Decode L cp = Some ?cb"
    unfolding pem_roundtrip_def by fastforce
  from rt kp have dk: "pem_Decode L kp = Some ?kb"
    unfolding pem_roundtrip_def by fastforce
  have enc: "pemEncode L der key = Inr (cp, kp)"
    by (simp add: pemEncode_def cp kp)
  have pk: "x509_ParsePKCS1PrivateKey L (block_Bytes ?kb) = Inr key"
    using key by (simp add: wellformed_key_def)
  have names: "caCertName \<noteq> caKeyName"
    by (simp add: caCertName_def caKeyName_def)
  have build: "buildArtifactsFromSecret L
                 (secret\<lparr>Data := Some (m(caCertName \<mapsto> cp, caKeyName \<mapsto> kp))\<rparr>)
               = (Some \<lparr>Cert = c, Key = key, CertPEM = cp, KeyPEM = kp\<rparr>, None)"
    using names pk der by (simp add: buildArtifactsFromSecret_def data_lookup_def dc dk)
  from enc dc dk pk build show ?thesis by blast
qed


theorem pemEncode_roundtrip_witness:
  "\<exists>certPEM keyPEM keyBlk.
     pemEncode ref_lib ''DER-CA'' (ref_key 0) = Inr (certPEM, keyPEM)
     \<and> pem_Decode ref_lib certPEM = Some \<lparr>block_Type = ''CERTIFICATE'', block_Bytes = ''DER-CA''\<rparr>
     \<and> pem_Decode ref_lib keyPEM = Some keyBlk
     \<and> x509_ParsePKCS1PrivateKey ref_lib (block_Bytes keyBlk) = Inr (ref_key 0)
     \<and> buildArtifactsFromSecret ref_lib
         (ref_secret\<lparr>Data := Some (Map.empty(caCertName \<mapsto> certPEM, caKeyName \<mapsto> keyPEM))\<rparr>)
       = (Some \<lparr>Cert = ref_ca_cert, Key = ref_key 0, CertPEM = certPEM, KeyPEM = keyPEM\<rparr>, None)"
  by (rule pemEncode_roundtrip
        [OF ref_pem_roundtrip ref_pem_Encode_total ref_wellformed_key ref_parse_ca])

subsection \<open>Looking up the service and the secret\<close>

text \<open>
  Claim C10. In \<^verbatim>\<open>updateCRD\<close>, when the list of services matching the configured
  labels does not have exactly one element (also when it is empty), the pass returns
  the error "multiple services match labels" with the reconciler and the world
  unchanged: nothing was issued and nothing was written. When exactly one service
  matches and the list of matching secrets does not have exactly one element, it
  returns "multiple secrets match labels" in the same way.
\<close>

theorem updateCRD_not_one_match:
  "(client_List_Service C (SvcLabels r) = Inr svcItems \<and> length svcItems \<noteq> 1
      \<longrightarrow> updateCRD L C r w req
           = (Return (Some (Error ''multiple services match labels'')), r, w))
   \<and> (client_List_Service C (SvcLabels r) = Inr svcItems \<and> length svcItems = 1
      \<and> client_List_Secret C (SecretLabels r) = Inr secretItems \<and> length secretItems \<noteq> 1
      \<longrightarrow> updateCRD L C r w req
           = (Return (Some (Error ''multiple secrets match labels'')), r, w))"
  by (simp add: updateCRD_def)

theorem updateCRD_not_one_match_witness:
  "updateCRD ref_lib (ref_cluster\<lparr>client_List_Service := \<lambda>labels. Inr []\<rparr>) ref_r ref_world
      ''externalsecrets.external-secrets.io''
     = (Return (Some (Error ''multiple services match labels'')), ref_r, ref_world)
   \<and> updateCRD ref_lib (ref_cluster\<lparr>client_List_Secret := \<lambda>labels. Inr []\<rparr>) ref_r ref_world
      ''externalsecrets.external-secrets.io''
     = (Return (Some (Error ''multiple secrets match labels'')), ref_r, ref_world)"
  using updateCRD_not_one_match
          [where C = "ref_cluster\<lparr>client_List_Service := \<lambda>labels. Inr []\<rparr>" and r = ref_r
             and svcItems = "[]" and L = ref_lib and w = ref_world
             and req = "''externalsecrets.external-secrets.io''"]
        updateCRD_not_one_match
          [where C = "ref_cluster\<lparr>client_List_Secret := \<lambda>labels. Inr []\<rparr>" and r = ref_r
             and svcItems = "[ref_service]" and secretItems = "[]" and L = ref_lib
             and w = ref_world and req = "''externalsecrets.external-secrets.io''"]
  by (simp add: ref_cluster_def)

subsection \<open>Issuing\<close>






subsection \<open>The rotation pass\<close>

lemma CreateCACert_world:
  "CreateCACert L r w b e = (res, w') \<Longrightarrow>
     secret_Updates w' = secret_Updates w \<and> resource_Updates w' = resource_Updates w"
  by (auto simp: CreateCACert_def Let_def read_rand_def split: sum.splits prod.splits)

lemma CreateCertPEM_world:
  "CreateCertPEM L r w ca b e = (res, w') \<Longrightarrow>
     secret_Updates w' = secret_Updates w \<and> resource_Updates w' = resource_Updates w"
  by (auto simp: CreateCertPEM_def Let_def read_rand_def
      split: sum.splits prod.splits option.splits)

lemma CreateCertPEM_no_Exit: "CreateCertPEM L r w ca b e \<noteq> (Exit n, w')"
  by (auto simp: CreateCertPEM_def Let_def split: sum.splits prod.splits option.splits)

lemma refreshCerts_cases:
  assumes "refreshCerts L C r w refreshCA secret = (out, secret', w')"
  shows "(secret' = secret \<and> secret_Updates w' = secret_Updates w
            \<and> resource_Updates w' = resource_Updates w \<and> out \<noteq> Return None)
         \<or> wrote L C r w refreshCA secret (out, secret', w')"
proof (cases refreshCA)
  case True
  let ?b = "time_Now C + (- 1) * time_Hour" and ?e = "time_Now C + certValidityDuration"
  obtain res w1 where cc: "CreateCACert L r w ?b ?e = (res, w1)"
    by (cases "CreateCACert L r w ?b ?e")
  note u1 = CreateCACert_world [OF cc]
  show ?thesis
  proof (cases res)
    case (Inl err)
    with assms True cc u1 show ?thesis
      by (auto simp: refreshCerts_def Let_def)
  next
    case (Inr ca)
    obtain o2 w2 where cp: "CreateCertPEM L r w1 (Some ca) ?b ?e = (o2, w2)"
      by (cases "CreateCertPEM L r w1 (Some ca) ?b ?e")
    note u2 = CreateCertPEM_world [OF cp]
    from assms True cc Inr cp u1 u2 show ?thesis
      by (auto simp: refreshCerts_def Let_def wrote_def writeSecret_def
          split: outcome.splits sum.splits option.splits)
  qed
next
  case False
  let ?b = "time_Now C + (- 1) * time_Hour" and ?e = "time_Now C + certValidityDuration"
  obtain cao err where ba: "buildArtifactsFromSecret L secret = (cao, err)"
    by (cases "buildArtifactsFromSecret L secret")
  show ?thesis
  proof (cases err)
    case (Some e)
    with assms False ba show ?thesis
      by (auto simp: refreshCerts_def Let_def)
  next
    case None
    obtain o2 w2 where cp: "CreateCertPEM L r w cao ?b ?e = (o2, w2)"
      by (cases "CreateCertPEM L r w cao ?b ?e")
    note u2 = CreateCertPEM_world [OF cp]
    from assms False ba None cp u2 show ?thesis
      by (auto simp: refreshCerts_def Let_def wrote_def writeSecret_def
          split: outcome.splits sum.splits option.splits)
  qed
qed


lemma after_refresh_snd: "snd (after_refresh r res) = snd res"
  by (cases res) (auto simp: after_refresh_def split: outcome.splits option.splits)

lemma after_refresh_success:
  "after_refresh r (out0, s, w) = (out, s', w') \<Longrightarrow> out = Return (True, None) \<or> out = Exit 0
     \<Longrightarrow> out0 = Return None \<or> out0 = Exit 0"
  by (auto simp: after_refresh_def split: outcome.splits option.splits if_splits)

lemma refreshCertIfNeeded_cases:
  assumes "refreshCertIfNeeded L C r w secret = (out, secret', w')"
  shows "(secret' = secret \<and> secret_Updates w' = secret_Updates w
            \<and> resource_Updates w' = resource_Updates w)
         \<or> (\<exists>refreshCA out0. wrote L C r w refreshCA secret (out0, secret', w')
               \<and> after_refresh r (out0, secret', w') = (out, secret', w')
               \<and> (\<not> refreshCA \<longrightarrow> Data secret \<noteq> None
                     \<and> validCACert L C r (data_get secret caCertName)
                          (data_get secret caKeyName)
                     \<and> \<not> validServerCert L C r (data_get secret caCertName)
                          (data_get secret certName) (data_get secret keyName)))"
proof -
  have step: "(secret' = secret \<and> secret_Updates w' = secret_Updates w
            \<and> resource_Updates w' = resource_Updates w)
         \<or> (\<exists>out0. wrote L C r w refreshCA secret (out0, secret', w')
               \<and> after_refresh r (out0, secret', w') = (out, secret', w'))"
    if a: "after_refresh r (refreshCerts L C r w refreshCA secret) = (out, secret', w')"
    for refreshCA
  proof -
    obtain out0 s0 w0 where rc: "refreshCerts L C r w refreshCA secret = (out0, s0, w0)"
      by (cases "refreshCerts L C r w refreshCA secret")
    from a rc after_refresh_snd [of r "(out0, s0, w0)"] have eq: "s0 = secret'" "w0 = w'"
      by simp_all
    from refreshCerts_cases [OF rc] a rc eq show ?thesis by auto
  qed
  show ?thesis
  proof (cases "Data secret = None
         \<or> \<not> validCACert L C r (data_get secret caCertName) (data_get secret caKeyName)")
    case True
    with assms have "after_refresh r (refreshCerts L C r w True secret) = (out, secret', w')"
      by (simp add: refreshCertIfNeeded_def)
    from step [OF this] show ?thesis by auto
  next
    case ca: False
    show ?thesis
    proof (cases "validServerCert L C r (data_get secret caCertName)
                    (data_get secret certName) (data_get secret keyName)")
      case True
      with ca assms show ?thesis by (auto simp: refreshCertIfNeeded_def)
    next
      case False
      with ca assms
      have "after_refresh r (refreshCerts L C r w False secret) = (out, secret', w')"
        by (auto simp: refreshCertIfNeeded_def)
      from step [OF this] ca False show ?thesis by auto
    qed
  qed
qed

lemma populateSecret_data:
  "\<exists>m. Data (populateSecret cert key ca secret) = Some m
       \<and> {caCertName, caKeyName, certName, keyName} \<subseteq> dom m"
  by (simp add: populateSecret_def)

text \<open>
  Claim C6. A rotation pass (\<^verbatim>\<open>refreshCertIfNeeded\<close>) that ends with a secret different
  from the one it was given has sent exactly one \<^verbatim>\<open>Update\<close> of the secret to the API
  server and no other write; the payload is the secret as the pass leaves it, its data
  holds all four blobs (CA certificate, CA key, leaf certificate, leaf key), and the
  leaf blobs in it were issued under the CA artifacts whose blobs are in it. This holds
  whether the pass returns, exits for a restart or sees the write fail.
\<close>

theorem one_complete_write:
  assumes "refreshCertIfNeeded L C r w secret = (out, secret', w')"
    and "secret' \<noteq> secret"
  shows "secret_Updates w' = secret_Updates w @ [secret']
         \<and> resource_Updates w' = resource_Updates w
         \<and> (\<exists>m. Data secret' = Some m
                \<and> {caCertName, caKeyName, certName, keyName} \<subseteq> dom m)
         \<and> (\<exists>ca w1 w2.
                CertPEM ca = data_get secret' caCertName
                \<and> KeyPEM ca = data_get secret' caKeyName
                \<and> CreateCertPEM L r w1 (Some ca) (time_Now C + (- 1) * time_Hour)
                      (time_Now C + certValidityDuration)
                    = (Return (Inr (data_get secret' certName, data_get secret' keyName)), w2))"
proof -
  from refreshCertIfNeeded_cases [OF assms(1)] assms(2)
  obtain refreshCA out0 where wr: "wrote L C r w refreshCA secret (out0, secret', w')"
    by auto
  then obtain ca cert key w1 w2 where
      ca: "if refreshCA
           then CreateCACert L r w (time_Now C + (- 1) * time_Hour)
                  (time_Now C + certValidityDuration) = (Inr ca, w1)
           else buildArtifactsFromSecret L secret = (Some ca, None) \<and> w1 = w"
    and cp: "CreateCertPEM L r w1 (Some ca) (time_Now C + (- 1) * time_Hour)
               (time_Now C + certValidityDuration) = (Return (Inr (cert, key)), w2)"
    and s: "secret' = populateSecret cert key ca secret"
    and w: "w' = w2\<lparr>secret_Updates := secret_Updates w2 @ [secret']\<rparr>"
    unfolding wrote_def by auto
  have w1: "secret_Updates w1 = secret_Updates w \<and> resource_Updates w1 = resource_Updates w"
    using ca CreateCACert_world by (cases refreshCA) auto
  note w2 = CreateCertPEM_world [OF cp]
  have "secret_Updates w' = secret_Updates w @ [secret']"
    "resource_Updates w' = resource_Updates w"
    using w w1 w2 by simp_all
  moreover have "\<exists>m. Data secret' = Some m
      \<and> {caCertName, caKeyName, certName, keyName} \<subseteq> dom m"
    unfolding s by (rule populateSecret_data)
  moreover have "CertPEM ca = data_get secret' caCertName
      \<and> KeyPEM ca = data_get secret' caKeyName
      \<and> CreateCertPEM L r w1 (Some ca) (time_Now C + (- 1) * time_Hour)
            (time_Now C + certValidityDuration)
          = (Return (Inr (data_get secret' certName, data_get secret' keyName)), w2)"
    using cp by (simp add: s data_get_populateSecret)
  ultimately show ?thesis by blast
qed

lemma ref_pass:
  "refreshCertIfNeeded ref_lib ref_cluster ref_r ref_world ref_secret
     = (Return (True, None), populateSecret ref_leaf_pem (ref_key_pem 2) ref_ca ref_secret,
        \<lparr>rand_Reader = 4,
         secret_Updates = [populateSecret ref_leaf_pem (ref_key_pem 2) ref_ca ref_secret],
         resource_Updates = []\<rparr>)"
proof -
  have "Data ref_secret = None" "\<not> RestartOnSecretRefresh ref_r"
    by (simp_all add: ref_secret_def ref_r_def)
  then show ?thesis
    by (simp add: refreshCertIfNeeded_def ref_refreshCerts_full after_refresh_def)
qed

lemma ref_pass_changes:
  "populateSecret ref_leaf_pem (ref_key_pem 2) ref_ca ref_secret \<noteq> ref_secret"
  by (simp add: populateSecret_def ref_secret_def)

theorem one_complete_write_witness:
  "secret_Updates \<lparr>rand_Reader = 4,
       secret_Updates = [populateSecret ref_leaf_pem (ref_key_pem 2) ref_ca ref_secret],
       resource_Updates = []\<rparr>
     = secret_Updates ref_world @ [populateSecret ref_leaf_pem (ref_key_pem 2) ref_ca ref_secret]
   \<and> (\<exists>m. Data (populateSecret ref_leaf_pem (ref_key_pem 2) ref_ca ref_secret) = Some m
          \<and> caCertName \<in> dom m \<and> caKeyName \<in> dom m \<and> certName \<in> dom m \<and> keyName \<in> dom m)"
  using one_complete_write [OF ref_pass ref_pass_changes] by auto

lemma buildArtifactsFromSecret_Some:
  assumes "buildArtifactsFromSecret L secret = (Some ca, err)"
  shows "data_lookup secret caCertName = (CertPEM ca, True)
         \<and> data_lookup secret caKeyName = (KeyPEM ca, True) \<and> err = None"
  using assms
  by (auto simp: buildArtifactsFromSecret_def split: prod.splits bool.splits option.splits
      sum.splits)

lemma data_lookup_populateSecret_other:
  assumes "data_lookup secret caCertName = (CertPEM ca, True)"
    and "data_lookup secret caKeyName = (KeyPEM ca, True)"
    and "k \<noteq> certName" and "k \<noteq> keyName"
  shows "data_lookup (populateSecret cert key ca secret) k = data_lookup secret k"
  using assms names_distinct
  by (auto simp: data_lookup_def populateSecret_def split: option.splits)

text \<open>
  Claim C3. For a secret whose CA certificate passes the validity check at the
  lookahead time and whose leaf certificate does not, a rotation pass leaves the CA
  certificate blob and the CA key blob as they were stored, and every other entry of
  the secret except the leaf certificate and the leaf key; this holds however the
  pass ends. When the pass succeeds (it returns true, or exits for a restart), the CA
  artifacts were rebuilt by parsing the stored blobs, and the new leaf blobs are the
  PEM encoding of a certificate the library created from the leaf template with the
  stored CA certificate as parent, signed with the stored CA key, and of its fresh key.
\<close>

theorem leaf_rotation_keeps_ca:
  assumes data: "Data secret \<noteq> None"
    and ca_valid: "validCACert L C r (data_get secret caCertName) (data_get secret caKeyName)"
    and leaf_invalid: "\<not> validServerCert L C r (data_get secret caCertName)
                          (data_get secret certName) (data_get secret keyName)"
    and pass: "refreshCertIfNeeded L C r w secret = (out, secret', w')"
  shows "data_get secret' caCertName = data_get secret caCertName
         \<and> data_get secret' caKeyName = data_get secret caKeyName
         \<and> (\<forall>k. k \<noteq> certName \<and> k \<noteq> keyName
                \<longrightarrow> data_lookup secret' k = data_lookup secret k)
         \<and> (out = Return (True, None) \<or> out = Exit 0
             \<longrightarrow> (\<exists>ca key seed der.
                    buildArtifactsFromSecret L secret = (Some ca, None)
                    \<and> CertPEM ca = data_get secret caCertName
                    \<and> KeyPEM ca = data_get secret caKeyName
                    \<and> rsa_GenerateKey L (rand_Reader w) 2048 = Inr key
                    \<and> x509_CreateCertificate L seed
                         (CreateCertPEM_templ r (time_Now C - time_Hour)
                            (time_Now C + 10 * 365 * 24 * time_Hour))
                         (Cert ca) (key_Public key) (Key ca) = Inr der
                    \<and> pemEncode L der key
                        = Inr (data_get secret' certName, data_get secret' keyName)))"
proof -
  let ?b = "time_Now C + (- 1) * time_Hour" and ?e = "time_Now C + certValidityDuration"
  have be: "?b = time_Now C - time_Hour" "?e = time_Now C + 10 * 365 * 24 * time_Hour"
    by (simp_all add: certValidityDuration_def)
  from data ca_valid leaf_invalid pass
  have ar: "after_refresh r (refreshCerts L C r w False secret) = (out, secret', w')"
    by (auto simp: refreshCertIfNeeded_def)
  obtain out0 s0 w0 where rc: "refreshCerts L C r w False secret = (out0, s0, w0)"
    by (cases "refreshCerts L C r w False secret")
  from ar rc after_refresh_snd [of r "(out0, s0, w0)"] have eq: "s0 = secret'" "w0 = w'"
    by simp_all
  from refreshCerts_cases [OF rc]
  show ?thesis
  proof
    assume "s0 = secret \<and> secret_Updates w0 = secret_Updates w
            \<and> resource_Updates w0 = resource_Updates w \<and> out0 \<noteq> Return None"
    then have same: "secret' = secret" and fail: "out0 \<noteq> Return None"
      using eq by simp_all
    from ar rc fail have "out \<noteq> Return (True, None)"
      by (auto simp: after_refresh_def split: outcome.splits option.splits if_splits)
    moreover from ar rc have "out = Exit 0 \<longrightarrow> out0 = Return None \<or> out0 = Exit 0"
      by (auto simp: after_refresh_def split: outcome.splits option.splits if_splits)
    moreover have "out0 \<noteq> Exit 0"
      using rc CreateCertPEM_no_Exit
      by (auto simp: refreshCerts_def Let_def writeSecret_def
          split: prod.splits outcome.splits sum.splits option.splits)
    ultimately show ?thesis using same fail by auto
  next
    assume "wrote L C r w False secret (out0, s0, w0)"
    then obtain ca cert key w2 where
        ba: "buildArtifactsFromSecret L secret = (Some ca, None)"
      and cp: "CreateCertPEM L r w (Some ca) ?b ?e = (Return (Inr (cert, key)), w2)"
      and s: "secret' = populateSecret cert key ca secret"
      unfolding wrote_def eq by auto
    note look = buildArtifactsFromSecret_Some [OF ba]
    have frame: "\<forall>k. k \<noteq> certName \<and> k \<noteq> keyName
                   \<longrightarrow> data_lookup secret' k = data_lookup secret k"
      unfolding s using look by (simp add: data_lookup_populateSecret_other)
    have pems: "CertPEM ca = data_get secret caCertName" "KeyPEM ca = data_get secret caKeyName"
      using look by (simp_all add: data_get_def)
    from cp obtain k seed der where
        g: "rsa_GenerateKey L (rand_Reader w) 2048 = Inr k"
      and c: "x509_CreateCertificate L seed (CreateCertPEM_templ r ?b ?e) (Cert ca)
                (key_Public k) (Key ca) = Inr der"
      and e: "pemEncode L der k = Inr (cert, key)"
      by (auto simp: CreateCertPEM_def Let_def split: sum.splits prod.splits)
    have "\<exists>ca key seed der.
            buildArtifactsFromSecret L secret = (Some ca, None)
            \<and> CertPEM ca = data_get secret caCertName
            \<and> KeyPEM ca = data_get secret caKeyName
            \<and> rsa_GenerateKey L (rand_Reader w) 2048 = Inr key
            \<and> x509_CreateCertificate L seed
                 (CreateCertPEM_templ r (time_Now C - time_Hour)
                    (time_Now C + 10 * 365 * 24 * time_Hour))
                 (Cert ca) (key_Public key) (Key ca) = Inr der
            \<and> pemEncode L der key
                = Inr (data_get secret' certName, data_get secret' keyName)"
      using ba pems g c e unfolding be s data_get_populateSecret by blast
    moreover have "data_get secret' caCertName = data_get secret caCertName"
      "data_get secret' caKeyName = data_get secret caKeyName"
      using pems by (simp_all add: s data_get_populateSecret)
    ultimately show ?thesis using frame by blast
  qed
qed


lemma ref_bundle_data:
  "Data (ref_bundle caKey leaf leafKey) \<noteq> None"
  "data_lookup (ref_bundle caKey leaf leafKey) caCertName = (ref_ca_pem, True)"
  "data_lookup (ref_bundle caKey leaf leafKey) caKeyName = (caKey, True)"
  "data_get (ref_bundle caKey leaf leafKey) caCertName = ref_ca_pem"
  "data_get (ref_bundle caKey leaf leafKey) caKeyName = caKey"
  "data_get (ref_bundle caKey leaf leafKey) certName = leaf"
  "data_get (ref_bundle caKey leaf leafKey) keyName = leafKey"
  using names_distinct by (simp_all add: ref_bundle_def data_get_def data_lookup_def)

lemma ref_lookahead:
  "lookaheadTime ref_cluster = ref_now + lookaheadInterval" "time_Now ref_cluster = ref_now"
  by (simp_all add: lookaheadTime_def ref_cluster_def)

lemma ref_names: "dnsName ref_r = ''webhook.default.svc''" "CAName ref_r = ''external-secrets''"
    "\<not> RestartOnSecretRefresh ref_r"
  by (simp_all add: ref_r_def)

lemma ref_Verify_ca:
  "x509_Verify ref_lib ref_ca_cert
     \<lparr>opt_DNSName = ''external-secrets'', opt_Roots = [ref_ca_cert],
      opt_CurrentTime = ref_now + lookaheadInterval\<rparr> = None"
  by (simp add: ref_lib_def ref_Verify_def ref_expired_def ref_windows ref_ca_fields
      lookaheadInterval_def certValidityDuration_def time_Hour_def)

lemma ref_validCACert:
  "validCACert ref_lib ref_cluster ref_r ref_ca_pem (ref_key_pem 0)"
  "validCACert ref_lib ref_cluster ref_r ref_ca_pem (ref_pkcs8_pem 0)"
  using ref_pems_nonempty
  by (simp_all add: validCACert_def ValidCert_def ref_lookahead ref_names ref_decode_ca
      ref_parse_ca ref_keypair_ca ref_keypair_ca_pkcs8 ref_Verify_ca)

lemma ref_old_leaf_invalid:
  "\<not> validServerCert ref_lib ref_cluster ref_r ref_ca_pem ref_old_pem (ref_key_pem 2)"
proof -
  have "x509_Verify ref_lib ref_old_cert
          \<lparr>opt_DNSName = ''webhook.default.svc'', opt_Roots = [ref_ca_cert],
           opt_CurrentTime = ref_now + lookaheadInterval\<rparr> \<noteq> None"
    by (simp add: ref_Verify_leaf ref_expired_def ref_windows lookaheadInterval_def
        time_Hour_def)
  then show ?thesis
    using ref_pems_nonempty
    by (auto simp: validServerCert_def ValidCert_def ref_lookahead ref_names ref_decode_ca
        ref_parse_ca ref_keypair_old ref_decode_old ref_parse_old split: option.splits)
qed

lemma ref_parse_pkcs1:
  "x509_ParsePKCS1PrivateKey ref_lib (ref_unary ''PKCS1:'' (ref_key n)) = Inr (ref_key n)"
  using ref_wellformed_key [of n] by (simp add: wellformed_key_def ref_lib_def)

lemma ref_build_ca:
  "buildArtifactsFromSecret ref_lib (ref_bundle (ref_key_pem 0) leaf leafKey)
     = (Some ref_ca, None)"
  by (simp add: buildArtifactsFromSecret_def ref_bundle_data ref_decode_ca ref_parse_ca
      ref_decode_key ref_parse_pkcs1 ref_ca_def)

lemma ref_build_pkcs8:
  "buildArtifactsFromSecret ref_lib (ref_bundle (ref_pkcs8_pem 0) leaf leafKey)
     = (None, Some (Error ''x509: failed to parse private key''))"
  by (simp add: buildArtifactsFromSecret_def ref_bundle_data ref_decode_ca ref_parse_ca
      ref_decode_pkcs8)
    (simp add: ref_lib_def ref_ParsePKCS1PrivateKey_def ref_parse_unary_def ref_unary_def)

text \<open>The leaf-only pass of the reference instance, from entropy state 2.\<close>

lemma ref_leaf_pass:
  "refreshCertIfNeeded ref_lib ref_cluster ref_r (ref_world\<lparr>rand_Reader := 2\<rparr>)
       (ref_bundle (ref_key_pem 0) ref_old_pem (ref_key_pem 2))
     = (Return (True, None),
        populateSecret ref_leaf_pem (ref_key_pem 2) ref_ca
          (ref_bundle (ref_key_pem 0) ref_old_pem (ref_key_pem 2)),
        \<lparr>rand_Reader = 4,
         secret_Updates = [populateSecret ref_leaf_pem (ref_key_pem 2) ref_ca
            (ref_bundle (ref_key_pem 0) ref_old_pem (ref_key_pem 2))],
         resource_Updates = []\<rparr>)"
proof -
  have t: "time_Now ref_cluster + (- 1) * time_Hour = ref_begin"
    "time_Now ref_cluster + certValidityDuration = ref_end"
    by (simp_all add: ref_cluster_def ref_begin_def ref_end_def)
  have rc: "refreshCerts ref_lib ref_cluster ref_r (ref_world\<lparr>rand_Reader := 2\<rparr>) False
              (ref_bundle (ref_key_pem 0) ref_old_pem (ref_key_pem 2))
            = (Return None,
               populateSecret ref_leaf_pem (ref_key_pem 2) ref_ca
                 (ref_bundle (ref_key_pem 0) ref_old_pem (ref_key_pem 2)),
               \<lparr>rand_Reader = 4,
                secret_Updates = [populateSecret ref_leaf_pem (ref_key_pem 2) ref_ca
                   (ref_bundle (ref_key_pem 0) ref_old_pem (ref_key_pem 2))],
                resource_Updates = []\<rparr>)"
    unfolding refreshCerts_def Let_def t
    by (simp add: ref_build_ca ref_CreateCertPEM)
      (simp add: writeSecret_def writes_def ref_cluster_def ref_world_def Let_def)
  show ?thesis
    using ref_validCACert(1) ref_old_leaf_invalid ref_bundle_data(1) ref_names(3)
    by (simp add: refreshCertIfNeeded_def ref_bundle_data rc after_refresh_def
        del: not_None_eq)
qed

theorem leaf_rotation_keeps_ca_witness:
  "data_get (populateSecret ref_leaf_pem (ref_key_pem 2) ref_ca
       (ref_bundle (ref_key_pem 0) ref_old_pem (ref_key_pem 2))) caCertName = ref_ca_pem
   \<and> data_get (populateSecret ref_leaf_pem (ref_key_pem 2) ref_ca
       (ref_bundle (ref_key_pem 0) ref_old_pem (ref_key_pem 2))) caKeyName = ref_key_pem 0
   \<and> (\<exists>ca key seed der.
         buildArtifactsFromSecret ref_lib (ref_bundle (ref_key_pem 0) ref_old_pem (ref_key_pem 2))
           = (Some ca, None)
         \<and> x509_CreateCertificate ref_lib seed
              (CreateCertPEM_templ ref_r (time_Now ref_cluster - time_Hour)
                 (time_Now ref_cluster + 10 * 365 * 24 * time_Hour))
              (Cert ca) (key_Public key) (Key ca) = Inr der
         \<and> pemEncode ref_lib der key = Inr (ref_leaf_pem, ref_key_pem 2))"
proof -
  let ?s = "ref_bundle (ref_key_pem 0) ref_old_pem (ref_key_pem 2)"
  have v: "validCACert ref_lib ref_cluster ref_r (data_get ?s caCertName)
             (data_get ?s caKeyName)"
    by (simp add: ref_bundle_data ref_validCACert)
  have i: "\<not> validServerCert ref_lib ref_cluster ref_r (data_get ?s caCertName)
               (data_get ?s certName) (data_get ?s keyName)"
    by (simp add: ref_bundle_data ref_old_leaf_invalid)
  show ?thesis
    using leaf_rotation_keeps_ca [OF ref_bundle_data(1) v i ref_leaf_pass]
    by (simp add: ref_bundle_data data_get_populateSecret) blast
qed

lemma rebuild_failure_swallowed:
  assumes data: "Data secret \<noteq> None"
    and ca_valid: "validCACert L C r (data_get secret caCertName) (data_get secret caKeyName)"
    and leaf_invalid: "\<not> validServerCert L C r (data_get secret caCertName)
                          (data_get secret certName) (data_get secret keyName)"
    and rebuild: "snd (buildArtifactsFromSecret L secret) = Some err"
  shows "refreshCerts L C r w False secret = (Return (Some err), secret, w)
         \<and> refreshCertIfNeeded L C r w secret = (Return (False, None), secret, w)"
proof -
  obtain ca where ba: "buildArtifactsFromSecret L secret = (ca, Some err)"
    using rebuild by (cases "buildArtifactsFromSecret L secret") simp
  then have rc: "refreshCerts L C r w False secret = (Return (Some err), secret, w)"
    by (simp add: refreshCerts_def Let_def)
  from data ca_valid leaf_invalid
  have "refreshCertIfNeeded L C r w secret
          = after_refresh r (refreshCerts L C r w False secret)"
    by (auto simp: refreshCertIfNeeded_def)
  with rc show ?thesis by (simp add: after_refresh_def)
qed

text \<open>
  Claim C7, as amended. If rebuilding the CA artifacts from the stored blobs fails with
  an error while the engine attempts a leaf-only rotation (the CA is valid, the leaf is
  not), \<^verbatim>\<open>refreshCerts\<close> returns that error, and the pass is aborted: the secret is
  left untouched, nothing is written and no entropy is consumed. The failure is not
  handed to the caller as an error: \<^verbatim>\<open>refreshCertIfNeeded\<close> returns \<^verbatim>\<open>false, nil\<close>.
\<close>

theorem failed_ca_rebuild_aborts:
  assumes "Data secret \<noteq> None"
    and "validCACert L C r (data_get secret caCertName) (data_get secret caKeyName)"
    and "\<not> validServerCert L C r (data_get secret caCertName)
             (data_get secret certName) (data_get secret keyName)"
    and "snd (buildArtifactsFromSecret L secret) = Some err"
  shows "refreshCerts L C r w False secret = (Return (Some err), secret, w)
         \<and> refreshCertIfNeeded L C r w secret = (Return (False, None), secret, w)"
  using assms by (rule rebuild_failure_swallowed)

lemma ref_pkcs8_pass_pre:
  "validCACert ref_lib ref_cluster ref_r
     (data_get (ref_bundle (ref_pkcs8_pem 0) ref_old_pem (ref_key_pem 2)) caCertName)
     (data_get (ref_bundle (ref_pkcs8_pem 0) ref_old_pem (ref_key_pem 2)) caKeyName)"
  "\<not> validServerCert ref_lib ref_cluster ref_r
     (data_get (ref_bundle (ref_pkcs8_pem 0) ref_old_pem (ref_key_pem 2)) caCertName)
     (data_get (ref_bundle (ref_pkcs8_pem 0) ref_old_pem (ref_key_pem 2)) certName)
     (data_get (ref_bundle (ref_pkcs8_pem 0) ref_old_pem (ref_key_pem 2)) keyName)"
  "snd (buildArtifactsFromSecret ref_lib (ref_bundle (ref_pkcs8_pem 0) ref_old_pem (ref_key_pem 2)))
     = Some (Error ''x509: failed to parse private key'')"
  by (simp_all add: ref_bundle_data ref_validCACert ref_old_leaf_invalid ref_build_pkcs8)

theorem failed_ca_rebuild_aborts_witness:
  "refreshCerts ref_lib ref_cluster ref_r ref_world False
       (ref_bundle (ref_pkcs8_pem 0) ref_old_pem (ref_key_pem 2))
     = (Return (Some (Error ''x509: failed to parse private key'')),
        ref_bundle (ref_pkcs8_pem 0) ref_old_pem (ref_key_pem 2), ref_world)
   \<and> refreshCertIfNeeded ref_lib ref_cluster ref_r ref_world
       (ref_bundle (ref_pkcs8_pem 0) ref_old_pem (ref_key_pem 2))
     = (Return (False, None), ref_bundle (ref_pkcs8_pem 0) ref_old_pem (ref_key_pem 2),
        ref_world)"
  by (rule failed_ca_rebuild_aborts [OF ref_bundle_data(1) ref_pkcs8_pass_pre])


lemma valid_cong:
  assumes "time_Now C' = time_Now C"
  shows "validCACert L C' r a b = validCACert L C r a b"
    and "validServerCert L C' r a b c = validServerCert L C r a b c"
  using assms by (simp_all add: validCACert_def validServerCert_def lookaheadTime_def)

lemma ref_updateCRD_pkcs8:
  "updateCRD ref_lib
       (ref_cluster\<lparr>client_List_Secret :=
          \<lambda>labels. Inr [ref_bundle (ref_pkcs8_pem 0) ref_old_pem (ref_key_pem 2)]\<rparr>)
       ref_r ref_world ''externalsecrets.external-secrets.io''
     = (Return None, ref_r, ref_world\<lparr>resource_Updates := [JObject []]\<rparr>)"
proof -
  let ?B = "ref_bundle (ref_pkcs8_pem 0) ref_old_pem (ref_key_pem 2)"
  let ?C = "ref_cluster\<lparr>client_List_Secret := \<lambda>labels. Inr [?B]\<rparr>"
  have t: "time_Now ?C = time_Now ref_cluster" by simp
  have r1: "ref_r\<lparr>dnsName := svc_Name ref_service @ CHR ''.'' # svc_Namespace ref_service
                                  @ ''.svc''\<rparr> = ref_r"
    by (simp add: ref_r_def ref_service_def)
  have pass: "refreshCertIfNeeded ref_lib ?C ref_r ref_world ?B
                = (Return (False, None), ?B, ref_world)"
    using rebuild_failure_swallowed [of ?B ref_lib ?C ref_r _ ref_world]
      ref_pkcs8_pass_pre ref_bundle_data(1) [of "ref_pkcs8_pem 0" ref_old_pem "ref_key_pem 2"]
    by (simp only: valid_cong [OF t]) simp
  have lists: "client_List_Service ?C (SvcLabels ref_r) = Inr [ref_service]"
    "client_List_Secret ?C (SecretLabels ref_r) = Inr [?B]"
    "client_Get ?C ''externalsecrets.external-secrets.io'' = Inr (JObject [])"
    "client_Update ?C n = None" for n
    by (simp_all add: ref_cluster_def)
  have inj: "injectSvcToConversionWebhook ref_lib (JObject []) ref_service = Inr (JObject [])"
    by (simp add: injectSvcToConversionWebhook_def ref_lib_def)
  show ?thesis
    unfolding updateCRD_def lists
    by (simp add: inj r1 pass Let_def)
      (simp add: updateResource_def lists writes_def ref_world_def ref_cluster_def)
qed

text \<open>
  The claim as first stated, that the failure is reported upward as an error, fails on
  the reference instance: with the CA key stored in PKCS #8 form the CA passes the
  validity check, the leaf has expired at the lookahead time, rebuilding the CA fails
  in the PKCS #1 parser, and both \<^verbatim>\<open>refreshCertIfNeeded\<close> and its caller \<^verbatim>\<open>updateCRD\<close>
  return a nil error.
\<close>

theorem error_not_reported_counterexample:
  "validCACert ref_lib ref_cluster ref_r
     (data_get (ref_bundle (ref_pkcs8_pem 0) ref_old_pem (ref_key_pem 2)) caCertName)
     (data_get (ref_bundle (ref_pkcs8_pem 0) ref_old_pem (ref_key_pem 2)) caKeyName)
   \<and> \<not> validServerCert ref_lib ref_cluster ref_r
     (data_get (ref_bundle (ref_pkcs8_pem 0) ref_old_pem (ref_key_pem 2)) caCertName)
     (data_get (ref_bundle (ref_pkcs8_pem 0) ref_old_pem (ref_key_pem 2)) certName)
     (data_get (ref_bundle (ref_pkcs8_pem 0) ref_old_pem (ref_key_pem 2)) keyName)
   \<and> buildArtifactsFromSecret ref_lib (ref_bundle (ref_pkcs8_pem 0) ref_old_pem (ref_key_pem 2))
       = (None, Some (Error ''x509: failed to parse private key''))
   \<and> fst (refreshCertIfNeeded ref_lib ref_cluster ref_r ref_world
            (ref_bundle (ref_pkcs8_pem 0) ref_old_pem (ref_key_pem 2)))
       = Return (False, None)
   \<and> fst (updateCRD ref_lib
            (ref_cluster\<lparr>client_List_Secret :=
               \<lambda>labels. Inr [ref_bundle (ref_pkcs8_pem 0) ref_old_pem (ref_key_pem 2)]\<rparr>)
            ref_r ref_world ''externalsecrets.external-secrets.io'')
       = Return None"
  using ref_pkcs8_pass_pre(1,2) ref_build_pkcs8 [of ref_old_pem "ref_key_pem 2"]
    rebuild_failure_swallowed [OF ref_bundle_data(1) ref_pkcs8_pass_pre, of ref_world]
    ref_updateCRD_pkcs8
  by simp

subsection \<open>Idempotence\<close>

lemma refreshCerts_no_Exit: "fst (refreshCerts L C r w refreshCA secret) \<noteq> Exit n"
  using CreateCertPEM_no_Exit
  by (auto simp: refreshCerts_def Let_def writeSecret_def
      split: prod.splits outcome.splits sum.splits option.splits)

lemma lookahead_inside_window:
  "inside_window (CreateCACert_templ r (now + (- 1) * time_Hour) (now + certValidityDuration))
     (now + lookaheadInterval)"
  "inside_window (CreateCertPEM_templ r (now + (- 1) * time_Hour) (now + certValidityDuration))
     (now + lookaheadInterval)"
  by (simp_all add: inside_window_def CreateCACert_templ_def CreateCertPEM_templ_def
      time_Hour_def time_Second_def certValidityDuration_def lookaheadInterval_def)

lemma data_lookup_populateSecret:
  "data_lookup (populateSecret cert key ca secret) caCertName = (CertPEM ca, True)"
  "data_lookup (populateSecret cert key ca secret) caKeyName = (KeyPEM ca, True)"
  "Data (populateSecret cert key ca secret) \<noteq> None"
  using names_distinct by (simp_all add: data_lookup_def populateSecret_def)

lemma buildArtifactsFromSecret_intro:
  assumes "data_lookup s caCertName = (cp, True)" and "data_lookup s caKeyName = (kp, True)"
    and "pem_Decode L cp = Some blk" and "x509_ParseCertificate L (block_Bytes blk) = Inr c"
    and "pem_Decode L kp = Some kb" and "x509_ParsePKCS1PrivateKey L (block_Bytes kb) = Inr k"
  shows "buildArtifactsFromSecret L s
           = (Some \<lparr>Cert = c, Key = k, CertPEM = cp, KeyPEM = kp\<rparr>, None)"
  using assms by (simp add: buildArtifactsFromSecret_def)

lemma buildArtifactsFromSecret_parses:
  assumes "buildArtifactsFromSecret L s = (Some ca, err)"
  shows "\<exists>blk kb. pem_Decode L (CertPEM ca) = Some blk
           \<and> x509_ParseCertificate L (block_Bytes blk) = Inr (Cert ca)
           \<and> pem_Decode L (KeyPEM ca) = Some kb
           \<and> x509_ParsePKCS1PrivateKey L (block_Bytes kb) = Inr (Key ca)"
  using assms
  by (auto simp: buildArtifactsFromSecret_def split: prod.splits bool.splits option.splits
      sum.splits)

lemma stored_ca_populateSecret:
  assumes "ca_readable L ca"
  shows "stored_ca L (populateSecret cert key ca secret) = Some (Cert ca, Key ca)"
proof -
  from assms obtain blk kb where
      "pem_Decode L (CertPEM ca) = Some blk"
      "x509_ParseCertificate L (block_Bytes blk) = Inr (Cert ca)"
      "pem_Decode L (KeyPEM ca) = Some kb"
      "x509_ParsePKCS1PrivateKey L (block_Bytes kb) = Inr (Key ca)"
    unfolding ca_readable_def by blast
  from buildArtifactsFromSecret_intro
         [OF data_lookup_populateSecret(1) data_lookup_populateSecret(2) this]
  show ?thesis by (simp add: stored_ca_def)
qed

lemma pemEncode_decodes:
  assumes rt: "pem_roundtrip L" and e: "pemEncode L der key = Inr (cp, kp)"
  shows "cp \<noteq> [] \<and> kp \<noteq> []
         \<and> pem_Decode L cp = Some \<lparr>block_Type = ''CERTIFICATE'', block_Bytes = der\<rparr>
         \<and> pem_Decode L kp = Some \<lparr>block_Type = ''RSA PRIVATE KEY'',
                                     block_Bytes = x509_MarshalPKCS1PrivateKey L key\<rparr>"
proof -
  from e have c: "pem_Encode L \<lparr>block_Type = ''CERTIFICATE'', block_Bytes = der\<rparr> = Inr cp"
    and k: "pem_Encode L \<lparr>block_Type = ''RSA PRIVATE KEY'',
                           block_Bytes = x509_MarshalPKCS1PrivateKey L key\<rparr> = Inr kp"
    by (auto simp: pemEncode_def split: sum.splits)
  have "cp \<noteq> [] \<and> pem_Decode L cp
      = Some \<lparr>block_Type = ''CERTIFICATE'', block_Bytes = der\<rparr>"
    by (rule rt [unfolded pem_roundtrip_def, rule_format, OF _ c]) simp
  moreover have "kp \<noteq> [] \<and> pem_Decode L kp
      = Some \<lparr>block_Type = ''RSA PRIVATE KEY'',
              block_Bytes = x509_MarshalPKCS1PrivateKey L key\<rparr>"
    by (rule rt [unfolded pem_roundtrip_def, rule_format, OF _ k]) simp
  ultimately show ?thesis by simp
qed

lemma fresh_leaf_valid:
  assumes rt: "pem_roundtrip L" and kp: "keypair_accepts_issued L"
    and ne: "CertPEM ca \<noteq> []" and rd: "ca_readable L ca"
    and ci: "can_issue L (Cert ca) (Key ca) r (lookaheadTime C)"
    and cp: "CreateCertPEM L r w1 (Some ca) (time_Now C + (- 1) * time_Hour)
               (time_Now C + certValidityDuration) = (Return (Inr (cert, key)), w2)"
  shows "validServerCert L C r (CertPEM ca) cert key"
proof -
  let ?T = "CreateCertPEM_templ r (time_Now C + (- 1) * time_Hour)
              (time_Now C + certValidityDuration)"
  from cp obtain k der where
      g: "rsa_GenerateKey L (rand_Reader w1) 2048 = Inr k"
    and c: "x509_CreateCertificate L (rand_Reader (read_rand w1)) ?T (Cert ca) (key_Public k)
              (Key ca) = Inr der"
    and e: "pemEncode L der k = Inr (cert, key)"
    by (auto simp: CreateCertPEM_def Let_def split: sum.splits prod.splits)
  note d = pemEncode_decodes [OF rt e]
  have pair: "tls_X509KeyPair L cert key = None"
    using kp g c e unfolding keypair_accepts_issued_def by blast
  have "inside_window ?T (lookaheadTime C)"
    unfolding lookaheadTime_def by (rule lookahead_inside_window)
  with ci c obtain crt where p: "x509_ParseCertificate L der = Inr crt"
    and v: "x509_Verify L crt \<lparr>opt_DNSName = dnsName r, opt_Roots = [Cert ca],
                                opt_CurrentTime = lookaheadTime C\<rparr> = None"
    unfolding can_issue_def by blast
  from rd obtain blk where b: "pem_Decode L (CertPEM ca) = Some blk"
    "x509_ParseCertificate L (block_Bytes blk) = Inr (Cert ca)"
    unfolding ca_readable_def by blast
  show ?thesis
    using ne d b pair p v by (simp add: validServerCert_def ValidCert_def)
qed

lemma fresh_ca_valid:
  assumes rt: "pem_roundtrip L" and wf: "generated_keys_wellformed L"
    and kp: "keypair_accepts_issued L"
    and self: "accepts_self_signed L r (lookaheadTime C)"
    and cc: "CreateCACert L r w (time_Now C + (- 1) * time_Hour)
               (time_Now C + certValidityDuration) = (Inr ca, w1)"
  shows "validCACert L C r (CertPEM ca) (KeyPEM ca) \<and> CertPEM ca \<noteq> [] \<and> ca_readable L ca"
proof -
  let ?T = "CreateCACert_templ r (time_Now C + (- 1) * time_Hour)
              (time_Now C + certValidityDuration)"
  from cc obtain key der where
      g: "rsa_GenerateKey L (rand_Reader w) 2048 = Inr key"
    and c: "x509_CreateCertificate L (rand_Reader (read_rand w)) ?T ?T (key_Public key) key
              = Inr der"
    and rest: "(case pemEncode L der key of
                  Inl err \<Rightarrow> (Inl err, read_rand (read_rand w))
                | Inr (certPEM, keyPEM) \<Rightarrow>
                   (case x509_ParseCertificate L der of
                      Inl err \<Rightarrow> (Inl err, read_rand (read_rand w))
                    | Inr cert \<Rightarrow>
                       (Inr \<lparr>Cert = cert, Key = key, CertPEM = certPEM, KeyPEM = keyPEM\<rparr>,
                        read_rand (read_rand w)))) = (Inr ca, w1)"
    by (auto simp: CreateCACert_def Let_def split: sum.splits)
  from rest obtain cp kp' cert where
      e: "pemEncode L der key = Inr (cp, kp')"
    and p: "x509_ParseCertificate L der = Inr cert"
    and ca: "ca = \<lparr>Cert = cert, Key = key, CertPEM = cp, KeyPEM = kp'\<rparr>"
    by (auto split: sum.splits prod.splits)
  note d = pemEncode_decodes [OF rt e]
  have pk: "x509_ParsePKCS1PrivateKey L (x509_MarshalPKCS1PrivateKey L key) = Inr key"
    using wf g unfolding generated_keys_wellformed_def wellformed_key_def by blast
  have pair: "tls_X509KeyPair L cp kp' = None"
    using kp g c e unfolding keypair_accepts_issued_def by blast
  have "inside_window ?T (lookaheadTime C)"
    unfolding lookaheadTime_def by (rule lookahead_inside_window)
  with self g c p
  have v: "x509_Verify L cert \<lparr>opt_DNSName = CAName r, opt_Roots = [cert],
                                 opt_CurrentTime = lookaheadTime C\<rparr> = None"
    unfolding accepts_self_signed_def by blast
  have "validCACert L C r cp kp'"
    using d p pair v by (simp add: validCACert_def ValidCert_def)
  moreover have "ca_readable L ca"
    unfolding ca_readable_def ca using d p pk by simp
  ultimately show ?thesis using d by (simp add: ca)
qed

lemma validCACert_nonempty: "validCACert L C r cp kp \<Longrightarrow> cp \<noteq> []"
  by (auto simp: validCACert_def ValidCert_def split: if_splits)

lemma second_pass_noop:
  assumes "validCACert L C r (CertPEM ca) (KeyPEM ca)"
    and "validServerCert L C r (CertPEM ca) cert key"
  shows "refreshCertIfNeeded L C r w'' (populateSecret cert key ca secret)
           = (Return (True, None), populateSecret cert key ca secret, w'')"
  using assms data_lookup_populateSecret(3) [of cert key ca secret]
  by (simp add: refreshCertIfNeeded_def data_get_populateSecret del: not_None_eq)

text \<open>
  Claim C2. The rotation pass is idempotent. Let a pass on any secret, for any host
  name and reference time, succeed: it returns true or exits for a restart. Then a
  second pass on the secret the first one left, with the same reconciler and at the
  same reference time, from any state of the world, returns true, leaves the secret
  as it is, consumes no entropy and writes nothing. The library properties used are
  that written PEM blocks decode to themselves, that generated keys survive PKCS #1
  encoding, that \<^verbatim>\<open>tls.X509KeyPair\<close> accepts the blobs of an issued certificate and
  its key, that \<^verbatim>\<open>Verify\<close> accepts a fresh self-signed CA inside its window, and that
  the CA held by the resulting secret can issue for the host name. The code
  contributes the window: now - 1h to now + 10 * 365 days contains now + 90 days.
\<close>

theorem rotation_idempotent:
  assumes rt: "pem_roundtrip L" and wf: "generated_keys_wellformed L"
    and kp: "keypair_accepts_issued L"
    and self: "accepts_self_signed L r (lookaheadTime C)"
    and issuer: "\<And>P k. stored_ca L secret' = Some (P, k)
                   \<Longrightarrow> can_issue L P k r (lookaheadTime C)"
    and first: "refreshCertIfNeeded L C r w secret = (out, secret', w')"
    and ok: "out = Return (True, None) \<or> out = Exit 0"
  shows "refreshCertIfNeeded L C r w'' secret' = (Return (True, None), secret', w'')"
proof -
  let ?b = "time_Now C + (- 1) * time_Hour" and ?e = "time_Now C + certValidityDuration"
  have rotated: ?thesis
    if ar: "after_refresh r (refreshCerts L C r w refreshCA secret) = (out, secret', w')"
      and old: "\<not> refreshCA \<Longrightarrow>
                  validCACert L C r (data_get secret caCertName) (data_get secret caKeyName)"
    for refreshCA
  proof -
    obtain out0 s0 w0 where rc: "refreshCerts L C r w refreshCA secret = (out0, s0, w0)"
      by (cases "refreshCerts L C r w refreshCA secret")
    from ar rc after_refresh_snd [of r "(out0, s0, w0)"] have eq: "s0 = secret'" "w0 = w'"
      by simp_all
    from ar rc ok have "out0 = Return None \<or> out0 = Exit 0"
      by (auto dest: after_refresh_success)
    with refreshCerts_no_Exit [of L C r w refreshCA secret 0] rc
    have out0: "out0 = Return None" by auto
    with refreshCerts_cases [OF rc]
    have "wrote L C r w refreshCA secret (out0, s0, w0)" by simp
    then obtain ca cert key w1 w2 where
        ca: "if refreshCA then CreateCACert L r w ?b ?e = (Inr ca, w1)
             else buildArtifactsFromSecret L secret = (Some ca, None) \<and> w1 = w"
      and cp: "CreateCertPEM L r w1 (Some ca) ?b ?e = (Return (Inr (cert, key)), w2)"
      and s: "secret' = populateSecret cert key ca secret"
      unfolding wrote_def eq by auto
    have cav: "validCACert L C r (CertPEM ca) (KeyPEM ca) \<and> CertPEM ca \<noteq> []
               \<and> ca_readable L ca"
    proof (cases refreshCA)
      case True
      with ca have "CreateCACert L r w ?b ?e = (Inr ca, w1)" by simp
      from fresh_ca_valid [OF rt wf kp self this] show ?thesis .
    next
      case False
      with ca have ba: "buildArtifactsFromSecret L secret = (Some ca, None)" by simp
      from buildArtifactsFromSecret_Some [OF ba]
      have pems: "CertPEM ca = data_get secret caCertName"
        "KeyPEM ca = data_get secret caKeyName"
        by (simp_all add: data_get_def)
      from old [OF False] have v: "validCACert L C r (CertPEM ca) (KeyPEM ca)"
        by (simp add: pems)
      moreover have "ca_readable L ca"
        unfolding ca_readable_def by (rule buildArtifactsFromSecret_parses [OF ba])
      ultimately show ?thesis using validCACert_nonempty [OF v] by simp
    qed
    then have rd: "ca_readable L ca" and ne: "CertPEM ca \<noteq> []"
      and v: "validCACert L C r (CertPEM ca) (KeyPEM ca)"
      by simp_all
    have "stored_ca L secret' = Some (Cert ca, Key ca)"
      unfolding s by (rule stored_ca_populateSecret [OF rd])
    from issuer [OF this] have ci: "can_issue L (Cert ca) (Key ca) r (lookaheadTime C)" .
    from fresh_leaf_valid [OF rt kp ne rd ci cp]
    have "validServerCert L C r (CertPEM ca) cert key" .
    with v show ?thesis unfolding s by (rule second_pass_noop)
  qed
  show ?thesis
  proof (cases "Data secret = None
         \<or> \<not> validCACert L C r (data_get secret caCertName) (data_get secret caKeyName)")
    case True
    with first have "after_refresh r (refreshCerts L C r w True secret) = (out, secret', w')"
      by (simp add: refreshCertIfNeeded_def)
    then show ?thesis by (rule rotated) simp
  next
    case ca: False
    show ?thesis
    proof (cases "validServerCert L C r (data_get secret caCertName)
                    (data_get secret certName) (data_get secret keyName)")
      case True
      with ca first have "secret' = secret" by (auto simp: refreshCertIfNeeded_def)
      with ca True show ?thesis by (auto simp: refreshCertIfNeeded_def)
    next
      case False
      with ca first
      have ar: "after_refresh r (refreshCerts L C r w False secret) = (out, secret', w')"
        by (auto simp: refreshCertIfNeeded_def)
      from ca have "validCACert L C r (data_get secret caCertName) (data_get secret caKeyName)"
        by blast
      with ar show ?thesis by (rule rotated)
    qed
  qed
qed


lemma ref_generated_keys_wellformed: "generated_keys_wellformed ref_lib"
  unfolding generated_keys_wellformed_def
  by (auto simp: ref_GenerateKey ref_wellformed_key)

lemma ref_create_cases:
  assumes "x509_CreateCertificate ref_lib seed templ parent pub priv = Inr der"
  shows "(templ = ref_ca_templ \<and> parent = ref_ca_templ \<and> pub = key_Public (ref_key 0)
            \<and> priv = ref_key 0 \<and> der = ''DER-CA'')
         \<or> (templ = ref_leaf_templ \<and> parent = ref_ca_cert \<and> pub = key_Public (ref_key 2)
            \<and> priv = ref_key 0 \<and> der = ''DER-LEAF'')"
  using assms by (auto simp: ref_lib_def ref_CreateCertificate_def split: if_splits)

lemma ref_keypair_accepts_issued: "keypair_accepts_issued ref_lib"
  unfolding keypair_accepts_issued_def
proof (intro allI impI)
  fix seed seed' bits templ parent key priv der certPEM keyPEM
  assume g: "rsa_GenerateKey ref_lib seed bits = Inr key"
    and c: "x509_CreateCertificate ref_lib seed' templ parent (key_Public key) priv = Inr der"
    and e: "pemEncode ref_lib der key = Inr (certPEM, keyPEM)"
  from g have key: "key = ref_key seed" by (simp add: ref_GenerateKey)
  from e have pems: "certPEM = armor ''CERTIFICATE'' @ der" "keyPEM = ref_key_pem seed"
    by (simp_all add: key ref_pemEncode)
  from ref_create_cases [OF c]
  show "tls_X509KeyPair ref_lib certPEM keyPEM = None"
  proof
    assume "templ = ref_ca_templ \<and> parent = ref_ca_templ
            \<and> key_Public key = key_Public (ref_key 0) \<and> priv = ref_key 0 \<and> der = ''DER-CA''"
    then have "seed = 0" "der = ''DER-CA''" by (simp_all add: key ref_public_inject)
    then show ?thesis
      using ref_keypair_ca by (simp add: pems ref_ca_pem_def)
  next
    assume "templ = ref_leaf_templ \<and> parent = ref_ca_cert
            \<and> key_Public key = key_Public (ref_key 2) \<and> priv = ref_key 0 \<and> der = ''DER-LEAF''"
    then have "seed = 2" "der = ''DER-LEAF''" by (simp_all add: key ref_public_inject)
    then show ?thesis
      using ref_keypair_leaf by (simp add: pems ref_leaf_pem_def)
  qed
qed

lemma ref_templ_kinds: "CreateCertPEM_templ r b e \<noteq> ref_ca_templ"
  "CreateCACert_templ r b e \<noteq> ref_leaf_templ"
  by (simp_all add: ref_ca_templ_def ref_leaf_templ_def CreateCACert_templ_def
      CreateCertPEM_templ_def)

lemma ref_inside_window:
  "inside_window ref_ca_templ at \<Longrightarrow> \<not> ref_expired ref_ca_cert at"
  "inside_window ref_leaf_templ at \<Longrightarrow> \<not> ref_expired ref_leaf_cert at \<and> \<not> ref_expired ref_ca_cert at"
  by (auto simp: inside_window_def ref_expired_def ref_ca_cert_def ref_leaf_cert_def
      ref_ca_templ_def ref_leaf_templ_def CreateCACert_templ_def CreateCertPEM_templ_def
      time_Second_def)

lemma ref_accepts_self_signed: "accepts_self_signed ref_lib ref_r at"
  unfolding accepts_self_signed_def
proof (intro allI impI)
  fix seed seed' bits begin' end' key der c
  assume c: "x509_CreateCertificate ref_lib seed' (CreateCACert_templ ref_r begin' end')
               (CreateCACert_templ ref_r begin' end') (key_Public key) key = Inr der"
    and p: "x509_ParseCertificate ref_lib der = Inr c"
    and i: "inside_window (CreateCACert_templ ref_r begin' end') at"
  from ref_create_cases [OF c] ref_templ_kinds(2) [of ref_r begin' end']
  have t: "CreateCACert_templ ref_r begin' end' = ref_ca_templ" and d: "der = ''DER-CA''"
    by auto
  from p d have cc: "c = ref_ca_cert" by (simp add: ref_parse_ca)
  from i t have "\<not> ref_expired ref_ca_cert at" by (simp add: ref_inside_window)
  then show "x509_Verify ref_lib c \<lparr>opt_DNSName = CAName ref_r, opt_Roots = [c],
                                      opt_CurrentTime = at\<rparr> = None"
    by (simp add: cc ref_lib_def ref_Verify_def ref_ca_fields ref_names)
qed

lemma ref_can_issue: "can_issue ref_lib ref_ca_cert (ref_key 0) ref_r at"
  unfolding can_issue_def
proof (intro allI impI)
  fix seed' begin' end' pub der
  assume c: "x509_CreateCertificate ref_lib seed' (CreateCertPEM_templ ref_r begin' end')
               ref_ca_cert pub (ref_key 0) = Inr der"
    and i: "inside_window (CreateCertPEM_templ ref_r begin' end') at"
  from ref_create_cases [OF c] ref_templ_kinds(1) [of ref_r begin' end']
  have t: "CreateCertPEM_templ ref_r begin' end' = ref_leaf_templ" and d: "der = ''DER-LEAF''"
    by auto
  from i t have "\<not> ref_expired ref_leaf_cert at \<and> \<not> ref_expired ref_ca_cert at"
    by (simp add: ref_inside_window)
  then have "x509_Verify ref_lib ref_leaf_cert
               \<lparr>opt_DNSName = dnsName ref_r, opt_Roots = [ref_ca_cert],
                opt_CurrentTime = at\<rparr> = None"
    by (simp add: ref_names ref_Verify_leaf)
  then show "\<exists>c. x509_ParseCertificate ref_lib der = Inr c
               \<and> x509_Verify ref_lib c \<lparr>opt_DNSName = dnsName ref_r, opt_Roots = [ref_ca_cert],
                                          opt_CurrentTime = at\<rparr> = None"
    by (simp add: d ref_parse_leaf)
qed

lemma ref_ca_readable: "ca_readable ref_lib ref_ca"
  unfolding ca_readable_def
  by (simp add: ref_ca_def ref_decode_ca ref_parse_ca ref_decode_key ref_parse_pkcs1)

lemma ref_stored_ca:
  "stored_ca ref_lib (populateSecret cert key ref_ca secret) = Some (P, k)
     \<Longrightarrow> can_issue ref_lib P k ref_r at"
  using stored_ca_populateSecret [OF ref_ca_readable, of cert key secret] ref_can_issue [of at]
  by (simp add: ref_ca_def)

theorem rotation_idempotent_witness:
  "refreshCertIfNeeded ref_lib ref_cluster ref_r ref_world ref_secret
     = (Return (True, None), populateSecret ref_leaf_pem (ref_key_pem 2) ref_ca ref_secret,
        \<lparr>rand_Reader = 4,
         secret_Updates = [populateSecret ref_leaf_pem (ref_key_pem 2) ref_ca ref_secret],
         resource_Updates = []\<rparr>)
   \<and> refreshCertIfNeeded ref_lib ref_cluster ref_r
        \<lparr>rand_Reader = 4,
         secret_Updates = [populateSecret ref_leaf_pem (ref_key_pem 2) ref_ca ref_secret],
         resource_Updates = []\<rparr>
        (populateSecret ref_leaf_pem (ref_key_pem 2) ref_ca ref_secret)
     = (Return (True, None), populateSecret ref_leaf_pem (ref_key_pem 2) ref_ca ref_secret,
        \<lparr>rand_Reader = 4,
         secret_Updates = [populateSecret ref_leaf_pem (ref_key_pem 2) ref_ca ref_secret],
         resource_Updates = []\<rparr>)"
  using ref_pass
    rotation_idempotent [OF ref_pem_roundtrip ref_generated_keys_wellformed
      ref_keypair_accepts_issued ref_accepts_self_signed ref_stored_ca ref_pass]
  by simp

end
